theory Spec2Isabelle
  imports Complex_Main "HOL-Library.Word" "HOL-Library.Signed_Division"
begin

section \<open>The MML compiler of atinysynth-pic (mml.c)\<close>

text \<open>
  The development embeds \<^verbatim>\<open>mml.c\<close>: the scanner \<^verbatim>\<open>mml_parse\<close>, the number readers, the
  duration quantizer \<^verbatim>\<open>get_adsr_time_scale\<close> and the frame emitter
  \<^verbatim>\<open>add_channel_frame\<close>. The file-level variables of \<^verbatim>\<open>mml.c\<close> (line, pos, the channel
  state table, the frame map) are one record that every operation takes and returns.
  What the C text leaves to the platform or to files outside \<^verbatim>\<open>mml.c\<close> is a parameter of
  the model (record \<open>env\<close>): the arithmetic on \<^verbatim>\<open>double\<close>, the sample rate, the macro
  \<^verbatim>\<open>ADSR_TIME_UNITS\<close>, the waveform builder, and the contents of memory that the code
  reads before writing it.
\<close>

subsection \<open>Platform: characters, integers, doubles\<close>

text \<open>Undefined behaviour of the C text is a value of the model, never a silent result.\<close>

datatype fault = OutOfBounds | FloatToInt | SignedOverflow

text \<open>\<^verbatim>\<open>char\<close> is signed on the hosts the tool is built for: a byte above 127 is negative.\<close>

definition cval :: "char \<Rightarrow> int" where
  "cval c = (let n = int (of_char c) in if n < 128 then n else n - 256)"

text \<open>
  The input is a null-terminated buffer: the bytes of \<open>buf\<close>, then the terminator at index
  \<open>length buf\<close>. \<open>peek\<close> is used for the reads that advance only over a character they
  have just seen to be non-null, so they never pass the terminator.
\<close>

definition peek :: "string \<Rightarrow> nat \<Rightarrow> int" where
  "peek buf i = (if i < length buf then cval (buf ! i) else 0)"

text \<open>
  \<^verbatim>\<open>int\<close> has 32 bits and \<^verbatim>\<open>long\<close> 64, as on the hosts the tool is built for. The values
  of \<^verbatim>\<open>int\<close> variables are integers of the model; where the text can make an \<^verbatim>\<open>int\<close>
  operation overflow (the quantizer, the join of two durations) the range is checked.
\<close>

definition INT_MAX :: int where "INT_MAX = 2147483647"
definition INT_MIN :: int where "INT_MIN = - 2147483648"
definition LONG_MAX :: int where "LONG_MAX = 9223372036854775807"
definition LONG_MIN :: int where "LONG_MIN = - 9223372036854775808"
definition UINT16_MAX :: int where "UINT16_MAX = 65535"

text \<open>The result of an \<^verbatim>\<open>int\<close> operation: overflow is undefined.\<close>

definition c_int :: "int \<Rightarrow> fault + int" where
  "c_int v = (if INT_MIN \<le> v \<and> v \<le> INT_MAX then Inr v else Inl SignedOverflow)"

text \<open>Conversion of a \<^verbatim>\<open>long\<close> to \<^verbatim>\<open>int\<close> (\<^verbatim>\<open>int ret = strtol(...)\<close>): modulo \<open>2^32\<close>.\<close>

definition long_to_int :: "int \<Rightarrow> int" where
  "long_to_int v = (v + 2147483648) mod 4294967296 - 2147483648"

text \<open>
  The arithmetic on \<^verbatim>\<open>double\<close> and the functions of \<^verbatim>\<open>math.h\<close> are an interface: the model
  fixes no representation of \<^verbatim>\<open>double\<close>. \<open>d_trunc\<close> is the integral part of a value toward
  zero, \<open>None\<close> for a NaN or an infinity.
\<close>

record 'f dbl_ops =
  d_lit :: "rat \<Rightarrow> 'f"
  d_of_int :: "int \<Rightarrow> 'f"
  d_add :: "'f \<Rightarrow> 'f \<Rightarrow> 'f"
  d_sub :: "'f \<Rightarrow> 'f \<Rightarrow> 'f"
  d_mul :: "'f \<Rightarrow> 'f \<Rightarrow> 'f"
  d_div :: "'f \<Rightarrow> 'f \<Rightarrow> 'f"
  d_pow :: "'f \<Rightarrow> 'f \<Rightarrow> 'f"
  d_round :: "'f \<Rightarrow> 'f"
  d_trunc :: "'f \<Rightarrow> int option"

text \<open>The casts \<^verbatim>\<open>(int)x\<close> and \<^verbatim>\<open>(uint8_t)x\<close> of a double: undefined out of the type's range.\<close>

definition dbl_to_int :: "'f dbl_ops \<Rightarrow> 'f \<Rightarrow> fault + int" where
  "dbl_to_int F x =
     (case d_trunc F x of
        None \<Rightarrow> Inl FloatToInt
      | Some v \<Rightarrow> if INT_MIN \<le> v \<and> v \<le> INT_MAX then Inr v else Inl FloatToInt)"

definition dbl_to_uint8 :: "'f dbl_ops \<Rightarrow> 'f \<Rightarrow> fault + int" where
  "dbl_to_uint8 F x =
     (case d_trunc F x of
        None \<Rightarrow> Inl FloatToInt
      | Some v \<Rightarrow> if 0 \<le> v \<and> v \<le> 255 then Inr v else Inl FloatToInt)"

subsection \<open>Data model\<close>

text \<open>\<^verbatim>\<open>struct mml_channel_state_t\<close> (mml.c, lines 149-163).\<close>

record 'f mml_channel_state_t =
  octave :: int
  default_length :: int
  default_length_dot :: int
  tempo :: int
  volume :: int
  articulation :: 'f
  isActive :: bool
  running_time_seconds :: 'f
  running_time_time_units :: int

text \<open>
  Modelled from the spec: \<^verbatim>\<open>struct seq_frame_t\<close> is declared in \<^verbatim>\<open>sequencer.h\<close>, which is
  not among the sources. A frame holds the waveform descriptor that the external builder
  \<^verbatim>\<open>voice_wf_setup_def\<close> writes (opaque, type \<open>'w\<close>), the duration stored as value - 1 in
  a 16-bit field, and the release offset (kept in 8 bits, as the \<^verbatim>\<open>uint8_t\<close> cast in
  \<^verbatim>\<open>add_channel_frame\<close> suggests).
\<close>

record 'w seq_frame_t =
  waveform :: 'w
  adsr_time_scale_1 :: "16 word"
  adsr_release_start :: "8 word"

text \<open>
  What the model takes as given. \<open>synth_freq\<close> is the \<^verbatim>\<open>uint16_t\<close> of \<^verbatim>\<open>synth.h\<close>;
  \<open>ADSR_TIME_UNITS\<close> is a macro of \<^verbatim>\<open>adsr.h\<close> (not among the sources);
  \<open>voice_wf_setup_def\<close> is the external builder, \<open>None\<close> when it returns 0.
  \<open>junk_state\<close> and \<open>junk_frame\<close> are the contents of freshly (re)allocated memory, and
  \<open>junk_isNoteCode\<close> is the value of the local \<^verbatim>\<open>isNoteCode\<close> where the code reads it
  without having assigned it (indexed by the channel, the frame index, the cursor).
\<close>

record ('f, 'w) env =
  dbl :: "'f dbl_ops"
  synth_freq :: "16 word"
  ADSR_TIME_UNITS :: int
  voice_wf_setup_def :: "int \<Rightarrow> int \<Rightarrow> 'w option"
  junk_state :: "nat \<Rightarrow> 'f mml_channel_state_t"
  junk_frame :: "nat \<Rightarrow> nat \<Rightarrow> 'w seq_frame_t"
  junk_isNoteCode :: "nat \<Rightarrow> bool"

text \<open>
  The variables of \<^verbatim>\<open>mml.c\<close>: \<open>line\<close>, \<open>pos\<close>, the cursor \<open>content\<close> (an index into the
  buffer), the table \<open>mml_channel_states\<close> (\<^verbatim>\<open>mml_channel_count\<close> is its length), the
  \<open>frame_map\<close> (one frame list per channel; \<^verbatim>\<open>channel_count\<close> and each \<^verbatim>\<open>count\<close> are
  lengths; the sizes passed to malloc and realloc are not modelled), and the calls of the
  error handler so far, oldest first.
\<close>

record ('f, 'w) mml_state =
  line :: int
  pos :: int
  content :: nat
  mml_channel_states :: "'f mml_channel_state_t list"
  frame_map :: "'w seq_frame_t list list"
  errors :: "(string \<times> int \<times> int) list"

definition error_handler :: "string \<Rightarrow> ('f, 'w) mml_state \<Rightarrow> ('f, 'w) mml_state" where
  "error_handler err st = st\<lparr>errors := errors st @ [(err, line st, pos st)]\<rparr>"

subsection \<open>The number readers\<close>

text \<open>\<^verbatim>\<open>read_digit\<close> (lines 107-116): the digit, or 255; the cursor advances either way.\<close>

definition read_digit :: "string \<Rightarrow> ('f, 'w) mml_state \<Rightarrow> int \<times> ('f, 'w) mml_state" where
  "read_digit buf st =
     (let code = peek buf (content st);
          st' = st\<lparr>content := content st + 1, pos := pos st + 1\<rparr>
      in if code < cval CHR ''0'' \<or> code > cval CHR ''9'' then (255, st')
         else (code - cval CHR ''0'', st'))"

text \<open>
  \<^verbatim>\<open>strtol(str, &end, 10)\<close> of the C library: white space is skipped, then an optional
  sign, then decimal digits; without a digit nothing is consumed and the value is 0; a
  value out of the range of \<^verbatim>\<open>long\<close> is clamped. The result is the value and \<^verbatim>\<open>end\<close>.
\<close>

definition isspace :: "char \<Rightarrow> bool" where
  "isspace c = (cval c = 32 \<or> (9 \<le> cval c \<and> cval c \<le> 13))"

definition isdigit :: "char \<Rightarrow> bool" where
  "isdigit c = (cval CHR ''0'' \<le> cval c \<and> cval c \<le> cval CHR ''9'')"

definition digits_value :: "string \<Rightarrow> int" where
  "digits_value ds = foldl (\<lambda>a d. 10 * a + (cval d - cval CHR ''0'')) 0 ds"

definition strtol :: "string \<Rightarrow> nat \<Rightarrow> int \<times> nat" where
  "strtol buf i =
     (let j = i + length (takeWhile isspace (drop i buf));
          sign = peek buf j;
          k = (if sign = cval CHR ''-'' \<or> sign = cval CHR ''+'' then j + 1 else j);
          ds = takeWhile isdigit (drop k buf);
          v = (if sign = cval CHR ''-'' then - digits_value ds else digits_value ds)
      in if ds = [] then (0, i)
         else (max LONG_MIN (min LONG_MAX v), k + length ds))"

text \<open>\<^verbatim>\<open>read_number\<close> (lines 119-128): -1 when the value is 0 or nothing was read.\<close>

definition read_number :: "string \<Rightarrow> ('f, 'w) mml_state \<Rightarrow> int \<times> ('f, 'w) mml_state" where
  "read_number buf st =
     (let (v, e) = strtol buf (content st);
          ret = long_to_int v
      in if ret = 0 \<or> e = content st then (- 1, st)
         else (ret, st\<lparr>pos := pos st + (int e - int (content st)), content := e\<rparr>))"

subsection \<open>Frequencies\<close>

text \<open>\<^verbatim>\<open>get_freq_from_code\<close> (lines 131-133).\<close>

definition get_freq_from_code :: "('f, 'w) env \<Rightarrow> int \<Rightarrow> fault + int" where
  "get_freq_from_code E noteCode =
     (let F = dbl E
      in dbl_to_int F
           (d_mul F (d_lit F 440)
              (d_pow F (d_of_int F 2) (d_div F (d_of_int F (noteCode - 33)) (d_lit F 12)))))"

text \<open>
  \<^verbatim>\<open>get_freq_from_note\<close> (lines 136-146). \<open>note\<close> is the character code; \<^verbatim>\<open>%\<close> truncates
  toward zero (\<open>smod\<close>).
\<close>

definition get_freq_from_note :: "('f, 'w) env \<Rightarrow> int \<Rightarrow> bool \<Rightarrow> int \<Rightarrow> fault + int" where
  "get_freq_from_note E note sharp oct =
     (let semitone = ((note - cval CHR ''a'' + 5) smod 7) * 2;
          semitone = (if semitone > 4 then semitone - 1 else semitone);
          semitone = (if sharp then semitone + 1 else semitone)
      in get_freq_from_code E (semitone + oct * 12))"

subsection \<open>The duration quantizer\<close>

text \<open>
  \<^verbatim>\<open>get_adsr_time_scale\<close> (lines 172-187): the returned \<^verbatim>\<open>time_scale\<close> and the updated
  channel state. The two casts to \<^verbatim>\<open>int\<close> and the two \<^verbatim>\<open>int\<close> operations of the last
  assignment can be undefined.
\<close>

definition get_adsr_time_scale ::
  "('f, 'w) env \<Rightarrow> 'f mml_channel_state_t \<Rightarrow> int \<Rightarrow> int \<Rightarrow>
     fault + (int \<times> 'f mml_channel_state_t)" where
  "get_adsr_time_scale E state len dots =
     (let F = dbl E;
          l = ((\<lambda>l. d_div F l (d_lit F (3 / 2))) ^^ nat dots) (d_of_int F len);
          seconds = d_div F (d_div F (d_mul F (d_lit F 60) (d_of_int F 4))
                      (d_of_int F (tempo state))) l;
          state = state\<lparr>running_time_seconds := d_add F (running_time_seconds state) seconds\<rparr>
      in case dbl_to_int F (d_round F (d_mul F (running_time_seconds state)
                               (d_of_int F (uint (synth_freq E))))) of
           Inl f \<Rightarrow> Inl f
         | Inr units_total \<Rightarrow>
             (let time_units_total = d_of_int F units_total;
                  delta_units = d_sub F time_units_total
                                  (d_of_int F (running_time_time_units state))
              in case dbl_to_int F (d_round F (d_div F delta_units
                                       (d_of_int F (ADSR_TIME_UNITS E)))) of
                   Inl f \<Rightarrow> Inl f
                 | Inr time_scale \<Rightarrow>
                     (case c_int (time_scale * ADSR_TIME_UNITS E) of
                        Inl f \<Rightarrow> Inl f
                      | Inr p \<Rightarrow>
                          (case c_int (running_time_time_units state + p) of
                             Inl f \<Rightarrow> Inl f
                           | Inr tu \<Rightarrow>
                               Inr (time_scale,
                                    state\<lparr>running_time_time_units := tu\<rparr>)))))"

subsection \<open>Channel activation\<close>

definition ARTICULATION_STACCATO :: "'f dbl_ops \<Rightarrow> 'f" where
  "ARTICULATION_STACCATO F = d_div F (d_lit F (5 / 2)) (d_lit F 4)"

definition ARTICULATION_NORMAL :: "'f dbl_ops \<Rightarrow> 'f" where
  "ARTICULATION_NORMAL F = d_div F (d_lit F 7) (d_lit F 8)"

definition ARTICULATION_LEGATO :: "'f dbl_ops \<Rightarrow> 'f" where
  "ARTICULATION_LEGATO F = d_lit F 1"

text \<open>The values \<^verbatim>\<open>enable_channel\<close> gives a new channel (lines 194-201, 204).\<close>

definition new_channel_state :: "'f dbl_ops \<Rightarrow> 'f mml_channel_state_t" where
  "new_channel_state F =
     \<lparr>octave = 4, default_length = 4, default_length_dot = 0, tempo = 120, volume = 63,
      articulation = ARTICULATION_NORMAL F, isActive = True,
      running_time_seconds = d_of_int F 0, running_time_time_units = 0\<rparr>"

text \<open>
  \<^verbatim>\<open>enable_channel\<close> (lines 189-205). The table grows to \<open>channel + 1\<close> entries, and only
  the entry \<open>channel\<close> is initialised: the entries between the old count and \<open>channel\<close>
  keep what realloc left there.
\<close>

definition enable_channel ::
  "('f, 'w) env \<Rightarrow> nat \<Rightarrow> ('f, 'w) mml_state \<Rightarrow> ('f, 'w) mml_state" where
  "enable_channel E channel st =
     (let states = mml_channel_states st;
          states = (if channel \<ge> length states
                    then states @ map (junk_state E) [length states ..< channel]
                           @ [new_channel_state (dbl E)]
                    else states)
      in st\<lparr>mml_channel_states := states[channel := (states ! channel)\<lparr>isActive := True\<rparr>]\<rparr>)"

text \<open>\<^verbatim>\<open>reset_active_state\<close> (lines 208-213).\<close>

definition reset_active_state :: "('f, 'w) env \<Rightarrow> ('f, 'w) mml_state \<Rightarrow> ('f, 'w) mml_state" where
  "reset_active_state E st =
     enable_channel E 0
       (st\<lparr>mml_channel_states :=
            (case mml_channel_states st of
               [] \<Rightarrow> []
             | s # ss \<Rightarrow> s # map (\<lambda>c. c\<lparr>isActive := False\<rparr>) ss)\<rparr>)"

subsection \<open>The frame emitter\<close>

text \<open>The block "New channel?" (lines 54-62): empty frame lists up to \<open>channel\<close>.\<close>

definition grow_frame_map :: "nat \<Rightarrow> 'w seq_frame_t list list \<Rightarrow> 'w seq_frame_t list list" where
  "grow_frame_map channel fm =
     (if channel \<ge> length fm then fm @ replicate (channel + 1 - length fm) [] else fm)"

text \<open>
  \<^verbatim>\<open>add_channel_frame\<close> (lines 52-100): \<open>True\<close> for the return value 1, \<open>False\<close> for 0
  (after a call of the error handler). A new frame is appended before its fields are
  written (\<^verbatim>\<open>list->count++\<close>), so it is in the list also when the function returns 0.
\<close>

definition add_channel_frame ::
  "('f, 'w) env \<Rightarrow> nat \<Rightarrow> int \<Rightarrow> int \<Rightarrow> int \<Rightarrow> 'f \<Rightarrow> bool \<Rightarrow> ('f, 'w) mml_state \<Rightarrow>
     fault + (bool \<times> ('f, 'w) mml_state)" where
  "add_channel_frame E channel frequency time_scale vol artic edit_last_duration st =
     (let F = dbl E;
          fm = grow_frame_map channel (frame_map st);
          list = fm ! channel
      in if edit_last_duration \<and> list = []
         then Inr (False, error_handler ''Can't join, no note before'' (st\<lparr>frame_map := fm\<rparr>))
         else
           (let i = (if edit_last_duration then length list - 1 else length list);
                list = (if edit_last_duration then list
                        else list @ [junk_frame E channel (length list)]);
                frame = list ! i
            in case (if frequency = 0 then voice_wf_setup_def E 0 0
                     else voice_wf_setup_def E frequency vol) of
                 None \<Rightarrow>
                   Inr (False,
                        error_handler (if frequency = 0 then ''Can't pack frame: pause''
                                       else ''Can't pack frame: waveform'')
                          (st\<lparr>frame_map := fm[channel := list]\<rparr>))
               | Some w \<Rightarrow>
                   (let frame = frame\<lparr>waveform := w\<rparr>
                    in case (if edit_last_duration
                             then c_int (time_scale + (uint (adsr_time_scale_1 frame) + 1))
                             else Inr time_scale) of
                         Inl f \<Rightarrow> Inl f
                       | Inr time_scale \<Rightarrow>
                           if time_scale > UINT16_MAX
                           then Inr (False,
                                     error_handler ''Can't pack frame: adsr time_scale''
                                       (st\<lparr>frame_map := fm[channel := list[i := frame]]\<rparr>))
                           else
                             (case c_int (time_scale - 1) of
                                Inl f \<Rightarrow> Inl f
                              | Inr t1 \<Rightarrow>
                                  (case dbl_to_uint8 F (d_round F
                                          (d_mul F (d_of_int F (ADSR_TIME_UNITS E)) artic)) of
                                     Inl f \<Rightarrow> Inl f
                                   | Inr r \<Rightarrow>
                                       Inr (True,
                                            st\<lparr>frame_map := fm[channel := list[i :=
                                               frame\<lparr>adsr_time_scale_1 := word_of_int t1,
                                                     adsr_release_start :=
                                                       word_of_int (r - 1)\<rparr>]]\<rparr>))))))"

subsection \<open>The scanner\<close>

text \<open>
  How \<^verbatim>\<open>mml_parse\<close> ends: \<^verbatim>\<open>return 1\<close> after an error, the end of the function body (reached
  after the terminator is read; the function has no \<^verbatim>\<open>return\<close> there), or undefined
  behaviour. \<^verbatim>\<open>mml_compile\<close> hands the value 1 on to its caller: that is the failed compile.
  One iteration of the \<^verbatim>\<open>while (1)\<close> either continues with a new state or ends the
  function.
\<close>

datatype parse_end = Return_1 | No_Return | Undefined fault

datatype ('f, 'w) step = Next "('f, 'w) mml_state" | Stop parse_end "('f, 'w) mml_state"

definition isupper :: "char \<Rightarrow> bool" where
  "isupper c = (cval CHR ''A'' \<le> cval c \<and> cval c \<le> cval CHR ''Z'')"

text \<open>Conversion of an \<^verbatim>\<open>int\<close> to \<^verbatim>\<open>char\<close> (\<^verbatim>\<open>code--\<close>).\<close>

definition to_char :: "int \<Rightarrow> int" where
  "to_char v = (v + 128) mod 256 - 128"

text \<open>The loops \<^verbatim>\<open>for (i = 0; i < mml_channel_count; i++) if (isActive) field = value\<close>.\<close>

definition for_active ::
  "('f mml_channel_state_t \<Rightarrow> 'f mml_channel_state_t) \<Rightarrow> ('f, 'w) mml_state \<Rightarrow> ('f, 'w) mml_state" where
  "for_active f st =
     st\<lparr>mml_channel_states := map (\<lambda>c. if isActive c then f c else c) (mml_channel_states st)\<rparr>"

text \<open>
  The comment loop \<^verbatim>\<open>while (*content != '\n') content++\<close> (lines 252-254) on the rest of
  the buffer: the offset of the first newline. Without a newline the loop reads the
  terminator, which is not a newline either, and steps past the buffer.
\<close>

fun skip_comment :: "string \<Rightarrow> nat option" where
  "skip_comment [] = None"
| "skip_comment (c # cs) =
     (if cval c = cval CHR 0x0A then Some 0 else map_option Suc (skip_comment cs))"

text \<open>\<^verbatim>\<open>o\<close> (lines 287-297).\<close>

definition mml_o :: "string \<Rightarrow> ('f, 'w) mml_state \<Rightarrow> ('f, 'w) step" where
  "mml_o buf st =
     (let (oct, st) = read_digit buf st
      in if oct = 255 \<or> oct > 6 then Stop Return_1 (error_handler ''Invalid octave'' st)
         else Next (for_active (\<lambda>c. c\<lparr>octave := oct\<rparr>) st))"

text \<open>\<^verbatim>\<open>l\<close> (lines 298-315).\<close>

definition mml_l :: "string \<Rightarrow> ('f, 'w) mml_state \<Rightarrow> ('f, 'w) step" where
  "mml_l buf st =
     (let (len, st) = read_number buf st
      in if len < 0 then Stop Return_1 (error_handler ''Invalid length'' st)
         else
           (let dot = length (takeWhile (\<lambda>c. cval c = cval CHR ''.'') (drop (content st) buf));
                st = st\<lparr>content := content st + dot, pos := pos st + int dot\<rparr>
            in Next (for_active (\<lambda>c. c\<lparr>default_length := len,
                                         default_length_dot := int dot\<rparr>) st)))"

text \<open>\<^verbatim>\<open>t\<close> (lines 316-326).\<close>

definition mml_t :: "string \<Rightarrow> ('f, 'w) mml_state \<Rightarrow> ('f, 'w) step" where
  "mml_t buf st =
     (let (tmp, st) = read_number buf st
      in if tmp < 0 then Stop Return_1 (error_handler ''Invalid tempo'' st)
         else Next (for_active (\<lambda>c. c\<lparr>tempo := tmp\<rparr>) st))"

text \<open>\<^verbatim>\<open>v\<close> (lines 327-337).\<close>

definition mml_v :: "string \<Rightarrow> ('f, 'w) mml_state \<Rightarrow> ('f, 'w) step" where
  "mml_v buf st =
     (let (vol, st) = read_number buf st
      in if vol < 0 \<or> vol > 128 then Stop Return_1 (error_handler ''Invalid volume'' st)
         else Next (for_active (\<lambda>c. c\<lparr>volume := vol\<rparr>) st))"

text \<open>
  The loops of \<^verbatim>\<open><\<close> and \<^verbatim>\<open>>\<close> (lines 338-357) over the table: \<open>False\<close> when an active
  channel is at the bound; the channels before it have been stepped already.
\<close>

fun octave_step_down :: "'f mml_channel_state_t list \<Rightarrow> bool \<times> 'f mml_channel_state_t list" where
  "octave_step_down [] = (True, [])"
| "octave_step_down (c # cs) =
     (if isActive c
      then if octave c = 0 then (False, c # cs)
           else (let (ok, cs') = octave_step_down cs in (ok, c\<lparr>octave := octave c - 1\<rparr> # cs'))
      else (let (ok, cs') = octave_step_down cs in (ok, c # cs')))"

fun octave_step_up :: "'f mml_channel_state_t list \<Rightarrow> bool \<times> 'f mml_channel_state_t list" where
  "octave_step_up [] = (True, [])"
| "octave_step_up (c # cs) =
     (if isActive c
      then if octave c = 9 then (False, c # cs)
           else (let (ok, cs') = octave_step_up cs in (ok, c\<lparr>octave := octave c + 1\<rparr> # cs'))
      else (let (ok, cs') = octave_step_up cs in (ok, c # cs')))"

definition mml_down :: "('f, 'w) mml_state \<Rightarrow> ('f, 'w) step" where
  "mml_down st =
     (let (ok, cs) = octave_step_down (mml_channel_states st);
          st = st\<lparr>mml_channel_states := cs\<rparr>
      in if ok then Next st else Stop Return_1 (error_handler ''Invalid octave step down'' st))"

definition mml_up :: "('f, 'w) mml_state \<Rightarrow> ('f, 'w) step" where
  "mml_up st =
     (let (ok, cs) = octave_step_up (mml_channel_states st);
          st = st\<lparr>mml_channel_states := cs\<rparr>
      in if ok then Next st else Stop Return_1 (error_handler ''Invalid octave step up'' st))"

text \<open>\<^verbatim>\<open>m\<close> (lines 358-381).\<close>

definition mml_m :: "('f, 'w) env \<Rightarrow> string \<Rightarrow> ('f, 'w) mml_state \<Rightarrow> ('f, 'w) step" where
  "mml_m E buf st =
     (let c = peek buf (content st);
          articulate = (\<lambda>a. Next ((for_active (\<lambda>s. s\<lparr>articulation := a\<rparr>) st)
                                    \<lparr>pos := pos st + 1, content := content st + 1\<rparr>))
      in if c = cval CHR ''l'' then articulate (ARTICULATION_LEGATO (dbl E))
         else if c = cval CHR ''n'' then articulate (ARTICULATION_NORMAL (dbl E))
         else if c = cval CHR ''s'' then articulate (ARTICULATION_STACCATO (dbl E))
         else Stop Return_1 (error_handler ''Invalid music articulation'' st))"

subsection \<open>Notes and rests\<close>

text \<open>
  The locals of the note branch (lines 382-388) and the character \<^verbatim>\<open>code\<close>, which the flat
  marker changes.
\<close>

record note_t =
  code :: int
  isPause :: bool
  isNoteCode :: bool
  length_note :: int
  dot :: int
  sharp :: bool
  customLength :: bool
  noteCode :: int

datatype ('f, 'w) modifier_step =
  M_Continue note_t "('f, 'w) mml_state"
| M_Break note_t "('f, 'w) mml_state"
| M_Return "('f, 'w) mml_state"

text \<open>One iteration of the modifier loop \<^verbatim>\<open>while (1)\<close> (lines 390-443).\<close>

definition note_modifier :: "string \<Rightarrow> note_t \<Rightarrow> ('f, 'w) mml_state \<Rightarrow> ('f, 'w) modifier_step" where
  "note_modifier buf n st =
     (let next = peek buf (content st)
      in if \<not> isPause n \<and> \<not> isNoteCode n \<and>
            (next = cval CHR ''-'' \<or> next = cval CHR ''+'' \<or> next = cval CHR ''#'')
         then
           (let n = (if next = cval CHR ''-'' then n\<lparr>code := to_char (code n - 1)\<rparr> else n)
            in if code n = cval CHR ''e'' \<or> code n = cval CHR ''b''
               then M_Return (error_handler ''Invalid sharp'' st)
               else M_Continue (n\<lparr>sharp := True\<rparr>)
                      (st\<lparr>content := content st + 1, pos := pos st + 1\<rparr>))
         else if cval CHR ''0'' \<le> next \<and> next \<le> cval CHR ''9''
         then
           (if isNoteCode n
            then if noteCode n \<noteq> - 1 then M_Return (error_handler ''Invalid note code'' st)
                 else
                   (let (r, st) = read_number buf st
                    in if r < 0 \<or> r > 84 then M_Return (error_handler ''Invalid note code'' st)
                       else M_Continue (n\<lparr>noteCode := r\<rparr>) st)
            else if customLength n then M_Return (error_handler ''Invalid length'' st)
                 else
                   (let (r, st) = read_number buf st
                    in if r < 0 then M_Return (error_handler ''Invalid length'' st)
                       else M_Continue (n\<lparr>length_note := r, customLength := True\<rparr>) st))
         else if next = cval CHR ''.''
         then M_Continue (n\<lparr>dot := dot n + 1\<rparr>)
                (st\<lparr>content := content st + 1, pos := pos st + 1\<rparr>)
         else M_Break n st)"

text \<open>
  The modifier loop ends: an iteration that continues has read a character other than
  the terminator and has moved the cursor forward.
\<close>

lemma strtol_end: "i \<le> snd (strtol buf i)"
  by (simp add: strtol_def Let_def)

lemma read_number_content:
  "read_number buf st = (r, st') \<Longrightarrow> content st \<le> content st'"
  using strtol_end [of "content st" buf]
  by (auto simp: read_number_def Let_def split: prod.splits if_splits)

lemma read_number_advances:
  "read_number buf st = (r, st') \<Longrightarrow> r \<noteq> - 1 \<Longrightarrow> content st < content st'"
  using strtol_end [of "content st" buf]
  by (auto simp: read_number_def Let_def split: prod.splits if_splits)

lemma peek_pos: "0 < peek buf i \<Longrightarrow> i < length buf"
  by (simp add: peek_def split: if_splits)

lemma note_modifier_reads:
  "note_modifier buf n st = M_Continue n' st' \<Longrightarrow> 0 < peek buf (content st)"
  unfolding note_modifier_def Let_def
  by (auto simp: cval_def split: if_splits prod.splits)

lemma note_modifier_content:
  "note_modifier buf n st = M_Continue n' st' \<Longrightarrow> content st < content st'"
  unfolding note_modifier_def Let_def
  by (auto simp: cval_def split: if_splits prod.splits dest: read_number_advances)

text \<open>
  The modifier loop: \<open>Inl\<close> when an iteration returns 1 from \<^verbatim>\<open>mml_parse\<close>, \<open>Inr\<close> with the
  locals at the \<^verbatim>\<open>break\<close>.
\<close>

function note_modifiers ::
  "string \<Rightarrow> note_t \<Rightarrow> ('f, 'w) mml_state \<Rightarrow> ('f, 'w) mml_state + note_t \<times> ('f, 'w) mml_state" where
  "note_modifiers buf n st =
     (case note_modifier buf n st of
        M_Continue n' st' \<Rightarrow> note_modifiers buf n' st'
      | M_Break n' st' \<Rightarrow> Inr (n', st')
      | M_Return st' \<Rightarrow> Inl st')"
  by pat_completeness auto
termination
proof (relation "measure (\<lambda>(buf, n, st). length buf - content st)")
  show "wf (measure (\<lambda>(buf, n, st). length buf - content st))"
    by simp
next
  fix buf :: string and n :: note_t and st :: "('f, 'w) mml_state" and n' st'
  assume step: "note_modifier buf n st = M_Continue n' st'"
  have "content st < length buf"
    using note_modifier_reads [OF step] by (rule peek_pos)
  moreover have "content st < content st'"
    using step by (rule note_modifier_content)
  ultimately show "((buf, n', st'), (buf, n, st)) \<in> measure (\<lambda>(buf, n, st). length buf - content st)"
    by simp
qed

declare note_modifiers.simps [simp del]

text \<open>
  The loop over the channels that sets the note (lines 446-458), on the channel indices
  still to visit: \<open>Inr (True, _)\<close> when it runs to its end, \<open>Inr (False, _)\<close> when
  \<^verbatim>\<open>add_channel_frame\<close> returned 0 (\<^verbatim>\<open>mml_parse\<close> then returns 1).
\<close>

fun set_note ::
  "('f, 'w) env \<Rightarrow> note_t \<Rightarrow> bool \<Rightarrow> nat list \<Rightarrow> ('f, 'w) mml_state \<Rightarrow>
     fault + (bool \<times> ('f, 'w) mml_state)" where
  "set_note E n join [] st = Inr (True, st)"
| "set_note E n join (i # is) st =
     (let state = mml_channel_states st ! i
      in if isActive state
         then
           (let n = (if isNoteCode n \<and> noteCode n = 0 then n\<lparr>isPause := True\<rparr> else n)
            in case (if isPause n then Inr 0
                     else if isNoteCode n then get_freq_from_code E (noteCode n)
                     else get_freq_from_note E (code n) (sharp n) (octave state)) of
                 Inl f \<Rightarrow> Inl f
               | Inr frequency \<Rightarrow>
                   (case get_adsr_time_scale E state
                           (if length_note n < 0 then default_length state else length_note n)
                           (if length_note n < 0 \<and> dot n = 0 then default_length_dot state
                            else dot n) of
                      Inl f \<Rightarrow> Inl f
                    | Inr (time_scale, state) \<Rightarrow>
                        (let st = st\<lparr>mml_channel_states := (mml_channel_states st)[i := state]\<rparr>
                         in case add_channel_frame E i frequency time_scale (volume state)
                                   (articulation state) join st of
                              Inl f \<Rightarrow> Inl f
                            | Inr (ok, st) \<Rightarrow>
                                if ok then set_note E n join is st else Inr (False, st))))
         else set_note E n join is st)"

declare set_note.simps [simp del]

text \<open>
  The note branch (lines 382-458). \<open>cursor\<close> is the index of the entry character. When
  the entry is a rest, \<^verbatim>\<open>isNoteCode\<close> is not assigned by the condition of the branch.
\<close>

definition mml_note ::
  "('f, 'w) env \<Rightarrow> string \<Rightarrow> nat \<Rightarrow> int \<Rightarrow> bool \<Rightarrow> ('f, 'w) mml_state \<Rightarrow> ('f, 'w) step" where
  "mml_note E buf cursor c join st =
     (let pause = (c = cval CHR ''p'' \<or> c = cval CHR ''r'');
          n = \<lparr>code = c, isPause = pause,
               isNoteCode = (if pause then junk_isNoteCode E cursor else c = cval CHR ''n''),
               length_note = - 1, dot = 0, sharp = False, customLength = False,
               noteCode = - 1\<rparr>
      in case note_modifiers buf n st of
           Inl st \<Rightarrow> Stop Return_1 st
         | Inr (n, st) \<Rightarrow>
             (case set_note E n join [0 ..< length (mml_channel_states st)] st of
                Inl f \<Rightarrow> Stop (Undefined f) st
              | Inr (ok, st) \<Rightarrow> if ok then Next st else Stop Return_1 st))"

text \<open>
  The channel selector at column 1 (lines 271-279): channel 0 is switched off, then the
  channel of every letter of the run is enabled.
\<close>

definition select_channels ::
  "('f, 'w) env \<Rightarrow> string \<Rightarrow> int \<Rightarrow> ('f, 'w) mml_state \<Rightarrow> ('f, 'w) mml_state" where
  "select_channels E buf c st =
     (let states = mml_channel_states st;
          st = st\<lparr>mml_channel_states := states[0 := (states ! 0)\<lparr>isActive := False\<rparr>]\<rparr>;
          st = enable_channel E (nat (c - cval CHR ''A'')) st;
          letters = takeWhile isupper (drop (content st) buf);
          st = foldl (\<lambda>s ch. enable_channel E (nat (cval ch - cval CHR ''A'')) s) st letters
      in st\<lparr>content := content st + length letters, pos := pos st + int (length letters)\<rparr>)"

text \<open>
  One iteration of the loop of \<^verbatim>\<open>mml_parse\<close> (lines 229-463). \<^verbatim>\<open>join\<close> is declared in the
  body of the loop with the initialiser 0: it is 0 again in the iteration after the one
  that reads \<^verbatim>\<open>&\<close>.
\<close>

definition mml_step :: "('f, 'w) env \<Rightarrow> string \<Rightarrow> ('f, 'w) mml_state \<Rightarrow> ('f, 'w) step" where
  "mml_step E buf st0 =
     (let st = st0\<lparr>pos := pos st0 + 1\<rparr>;
          cursor = content st
      in if cursor > length buf then Stop (Undefined OutOfBounds) st
         else
           (let c = peek buf cursor;
                st = st\<lparr>content := cursor + 1\<rparr>
            in if c = 0 then Stop No_Return st
               else if c \<le> 32 \<or> c = cval CHR ''|''
               then
                 (let st = (if c = cval CHR 0x0A
                            then (reset_active_state E (st\<lparr>line := line st + 1\<rparr>))\<lparr>pos := 0\<rparr>
                            else st)
                  in Next (if c = cval CHR 0x0D then st\<lparr>pos := pos st - 1\<rparr> else st))
               else if c = cval CHR ''#'' \<or> c = cval CHR '';''
               then
                 (case skip_comment (drop (content st) buf) of
                    None \<Rightarrow> Stop (Undefined OutOfBounds) st
                  | Some k \<Rightarrow>
                      Next ((reset_active_state E
                               (st\<lparr>content := content st + k + 1, line := line st + 1\<rparr>))
                            \<lparr>pos := 0\<rparr>))
               else
                 (let join = False
                  in if c = cval CHR ''&'' then Next st
                     else if cval CHR ''A'' \<le> c \<and> c \<le> cval CHR ''Z'' \<and> pos st = 1
                     then Next (select_channels E buf c st)
                     else
                       (let st = (if cval CHR ''A'' \<le> c \<and> c \<le> cval CHR ''Z''
                                  then error_handler ''Misplaced channel selector'' st
                                  else st)
                        in if c = cval CHR ''o'' then mml_o buf st
                           else if c = cval CHR ''l'' then mml_l buf st
                           else if c = cval CHR ''t'' then mml_t buf st
                           else if c = cval CHR ''v'' then mml_v buf st
                           else if c = cval CHR ''<'' then mml_down st
                           else if c = cval CHR ''>'' then mml_up st
                           else if c = cval CHR ''m'' then mml_m E buf st
                           else if c = cval CHR ''p'' \<or> c = cval CHR ''r'' \<or>
                                   c = cval CHR ''n'' \<or>
                                   (cval CHR ''a'' \<le> c \<and> c \<le> cval CHR ''g'')
                           then mml_note E buf cursor c join st
                           else Stop Return_1 (error_handler ''Unknown command'' st)))))"

text \<open>
  The loop of \<^verbatim>\<open>mml_parse\<close> ends: an iteration that continues has read a character before
  the terminator, and every command leaves the cursor where it is or moves it forward.
\<close>

lemma content_error_handler [simp]: "content (error_handler e st) = content st"
  by (simp add: error_handler_def)

lemma content_for_active [simp]: "content (for_active f st) = content st"
  by (simp add: for_active_def)

lemma content_enable_channel [simp]: "content (enable_channel E ch st) = content st"
  by (simp add: enable_channel_def Let_def)

lemma content_reset_active_state [simp]: "content (reset_active_state E st) = content st"
  by (simp add: reset_active_state_def)

lemma content_foldl_enable:
  "content (foldl (\<lambda>s ch. enable_channel E (g ch) s) st xs) = content st"
  by (induction xs arbitrary: st) simp_all

lemma content_select_channels: "content st \<le> content (select_channels E buf c st)"
  by (simp add: select_channels_def Let_def content_foldl_enable)

lemma select_channels_Suc:
  "content st = Suc k \<Longrightarrow> k < content (select_channels E buf c st)"
  using content_select_channels [of st E buf c] by simp

lemma mml_o_content: "mml_o buf st = Next st' \<Longrightarrow> content st \<le> content st'"
  by (auto simp: mml_o_def read_digit_def Let_def split: if_splits)

lemma mml_l_content: "mml_l buf st = Next st' \<Longrightarrow> content st \<le> content st'"
  by (auto simp: mml_l_def Let_def split: prod.splits if_splits dest: read_number_content)

lemma mml_t_content: "mml_t buf st = Next st' \<Longrightarrow> content st \<le> content st'"
  by (auto simp: mml_t_def Let_def split: prod.splits if_splits dest: read_number_content)

lemma mml_v_content: "mml_v buf st = Next st' \<Longrightarrow> content st \<le> content st'"
  by (auto simp: mml_v_def Let_def split: prod.splits if_splits dest: read_number_content)

lemma mml_down_content: "mml_down st = Next st' \<Longrightarrow> content st \<le> content st'"
  by (auto simp: mml_down_def Let_def split: prod.splits if_splits)

lemma mml_up_content: "mml_up st = Next st' \<Longrightarrow> content st \<le> content st'"
  by (auto simp: mml_up_def Let_def split: prod.splits if_splits)

lemma mml_m_content: "mml_m E buf st = Next st' \<Longrightarrow> content st \<le> content st'"
  by (auto simp: mml_m_def Let_def split: if_splits)

lemma add_channel_frame_content:
  "add_channel_frame E ch fr ts vol art ed st = Inr (ok, st') \<Longrightarrow> content st' = content st"
  by (auto simp: add_channel_frame_def Let_def split: if_splits option.splits sum.splits)

lemma set_note_content:
  "set_note E n join is st = Inr (ok, st') \<Longrightarrow> content st' = content st"
proof (induction "is" arbitrary: n st)
  case Nil
  then show ?case by (simp add: set_note.simps)
next
  case (Cons i "is")
  then show ?case
    by (auto simp: set_note.simps Let_def split: if_splits sum.splits prod.splits
        dest!: add_channel_frame_content)
qed

lemma note_modifiers_content:
  "note_modifiers buf n st = Inr (n', st') \<Longrightarrow> content st \<le> content st'"
proof (induction buf n st rule: note_modifiers.induct)
  case (1 buf n st)
  show ?case
  proof (cases "note_modifier buf n st")
    case (M_Continue n1 st1)
    with "1.prems" have "note_modifiers buf n1 st1 = Inr (n', st')"
      by (simp add: note_modifiers.simps [of buf n st])
    then have "content st1 \<le> content st'"
      using "1.IH" M_Continue by blast
    moreover have "content st < content st1"
      using M_Continue by (rule note_modifier_content)
    ultimately show ?thesis by simp
  next
    case (M_Break n1 st1)
    with "1.prems" have "st' = st1"
      by (simp add: note_modifiers.simps [of buf n st])
    moreover have "st1 = st"
      using M_Break unfolding note_modifier_def Let_def
      by (auto split: if_splits prod.splits)
    ultimately show ?thesis by simp
  next
    case (M_Return st1)
    with "1.prems" show ?thesis
      by (simp add: note_modifiers.simps [of buf n st])
  qed
qed

lemma mml_note_content:
  "mml_note E buf cur c join st = Next st' \<Longrightarrow> content st \<le> content st'"
  unfolding mml_note_def Let_def
  by (auto split: sum.splits prod.splits if_splits
      dest!: note_modifiers_content set_note_content)

lemma mml_step_reads:
  "mml_step E buf st = Next st' \<Longrightarrow> content st < length buf"
  unfolding mml_step_def Let_def
  by (auto simp: peek_def split: if_splits option.splits)

lemma mml_step_content:
  "mml_step E buf st = Next st' \<Longrightarrow> content st < content st'"
  unfolding mml_step_def Let_def
  apply (simp split: if_splits option.splits)
  apply (auto dest!: mml_o_content mml_l_content mml_t_content mml_v_content mml_down_content
      mml_up_content mml_m_content mml_note_content
      intro!: select_channels_Suc)
  done

text \<open>The loop \<^verbatim>\<open>while (1)\<close> of \<^verbatim>\<open>mml_parse\<close>: how the function ends, and the last state.\<close>

function mml_loop ::
  "('f, 'w) env \<Rightarrow> string \<Rightarrow> ('f, 'w) mml_state \<Rightarrow> parse_end \<times> ('f, 'w) mml_state" where
  "mml_loop E buf st =
     (case mml_step E buf st of
        Next st' \<Rightarrow> mml_loop E buf st'
      | Stop e st' \<Rightarrow> (e, st'))"
  by pat_completeness auto
termination
proof (relation "measure (\<lambda>(E, buf, st). length buf - content st)")
  show "wf (measure (\<lambda>(E, buf, st). length buf - content st))"
    by simp
next
  fix E :: "('f, 'w) env" and buf :: string and st st' :: "('f, 'w) mml_state"
  assume step: "mml_step E buf st = Next st'"
  have "content st < length buf"
    using step by (rule mml_step_reads)
  moreover have "content st < content st'"
    using step by (rule mml_step_content)
  ultimately show "((E, buf, st'), (E, buf, st)) \<in> measure (\<lambda>(E, buf, st). length buf - content st)"
    by simp
qed

declare mml_loop.simps [simp del]

text \<open>
  \<^verbatim>\<open>mml_parse\<close> (lines 218-471), called for the first time in the process (the static
  \<^verbatim>\<open>mml_channel_count\<close> is 0 then, and \<^verbatim>\<open>mml_parse\<close> does not reset it).
\<close>

definition mml_init :: "('f, 'w) mml_state" where
  "mml_init = \<lparr>line = 1, pos = 0, content = 0, mml_channel_states = [], frame_map = [],
               errors = []\<rparr>"

definition mml_parse :: "('f, 'w) env \<Rightarrow> string \<Rightarrow> parse_end \<times> ('f, 'w) mml_state" where
  "mml_parse E buf = mml_loop E buf (reset_active_state E mml_init)"

subsection \<open>An instance to run the model on\<close>

text \<open>
  C's \<^verbatim>\<open>round\<close> (halfway cases away from zero) and the truncation of a cast, on reals.
\<close>

definition c_round :: "real \<Rightarrow> int" where
  "c_round x = (if 0 \<le> x then \<lfloor>x + 1 / 2\<rfloor> else - \<lfloor>- x + 1 / 2\<rfloor>)"

definition c_trunc :: "real \<Rightarrow> int" where
  "c_trunc x = (if 0 \<le> x then \<lfloor>x\<rfloor> else - \<lfloor>- x\<rfloor>)"

text \<open>
  Doubles as real numbers with exact arithmetic; a sample rate of 32000 and 32 time units
  per envelope; a builder that accepts every request and records it; zeroed memory.
\<close>

definition ideal_dbl :: "real dbl_ops" where
  "ideal_dbl =
     \<lparr>d_lit = of_rat, d_of_int = of_int, d_add = (+), d_sub = (-), d_mul = (*),
      d_div = (/), d_pow = (powr), d_round = (\<lambda>x. of_int (c_round x)),
      d_trunc = (\<lambda>x. Some (c_trunc x))\<rparr>"

definition ideal_env :: "(real, int \<times> int) env" where
  "ideal_env =
     \<lparr>dbl = ideal_dbl, synth_freq = 32000, ADSR_TIME_UNITS = 32,
      voice_wf_setup_def = (\<lambda>f v. Some (f, v)),
      junk_state = (\<lambda>_. \<lparr>octave = 0, default_length = 0, default_length_dot = 0, tempo = 0,
                            volume = 0, articulation = 0, isActive = False,
                            running_time_seconds = 0, running_time_time_units = 0\<rparr>),
      junk_frame = (\<lambda>_ _. \<lparr>waveform = (0, 0), adsr_time_scale_1 = 0,
                              adsr_release_start = 0\<rparr>),
      junk_isNoteCode = (\<lambda>_. False)\<rparr>"

text \<open>
  The same platform with other contents in the memory that realloc hands out: a table
  entry that \<^verbatim>\<open>enable_channel\<close> does not initialise holds a channel state whose integer
  accumulator is 64000 while its seconds are 0.
\<close>

definition stale_env :: "(real, int \<times> int) env" where
  "stale_env =
     ideal_env\<lparr>junk_state :=
       (\<lambda>_. \<lparr>octave = 4, default_length = 4, default_length_dot = 0, tempo = 120,
              volume = 63, articulation = 7 / 8, isActive = False,
              running_time_seconds = 0, running_time_time_units = 64000\<rparr>)\<rparr>"

text \<open>
  What the drift bound of the quantizer needs of the doubles, and what IEEE-754 doubles
  give: the difference of two \<^verbatim>\<open>int\<close> values converted to double is exact, and its quotient
  by a positive \<^verbatim>\<open>int\<close>, rounded by \<^verbatim>\<open>round\<close> and cast back, is the exact quotient rounded
  to the nearest integer, halfway cases away from zero.
\<close>

definition dbl_quotient_exact :: "'f dbl_ops \<Rightarrow> bool" where
  "dbl_quotient_exact F \<longleftrightarrow>
     (\<forall>a b c. INT_MIN \<le> a \<and> a \<le> INT_MAX \<and> INT_MIN \<le> b \<and> b \<le> INT_MAX \<and>
              0 < c \<and> c \<le> INT_MAX \<longrightarrow>
        d_trunc F (d_round F (d_div F (d_sub F (d_of_int F a) (d_of_int F b)) (d_of_int F c))) =
          Some (c_round (of_int (a - b) / of_int c)))"

text \<open>
  The drift bound of a channel: the integer accumulator is within \<^verbatim>\<open>ADSR_TIME_UNITS\<close> of
  \<^verbatim>\<open>(int)round(running_time.seconds * synth_freq)\<close>, and that cast is defined.
\<close>

definition drift_bounded :: "('f, 'w) env \<Rightarrow> 'f mml_channel_state_t \<Rightarrow> bool" where
  "drift_bounded E c \<longleftrightarrow>
     (\<exists>units_total.
        dbl_to_int (dbl E)
          (d_round (dbl E)
             (d_mul (dbl E) (running_time_seconds c)
                (d_of_int (dbl E) (uint (synth_freq E))))) = Inr units_total \<and>
        \<bar>running_time_time_units c - units_total\<bar> \<le> ADSR_TIME_UNITS E)"

text \<open>The frames of a channel in the frame map: none when the map has no such channel yet.\<close>

definition channel_frames :: "'w seq_frame_t list list \<Rightarrow> nat \<Rightarrow> 'w seq_frame_t list" where
  "channel_frames fm channel = (if channel < length fm then fm ! channel else [])"

section \<open>Properties\<close>

subsection \<open>Running the model\<close>

text \<open>The equations that evaluate the model on a given input.\<close>

lemmas plat_defs = cval_def peek_def isspace_def isdigit_def isupper_def digits_value_def
  LONG_MAX_def LONG_MIN_def long_to_int_def to_char_def INT_MAX_def INT_MIN_def UINT16_MAX_def

lemmas scan_defs = mml_parse_def mml_init_def mml_step_def reset_active_state_def
  enable_channel_def error_handler_def for_active_def select_channels_def
  mml_o_def mml_l_def mml_t_def mml_v_def mml_down_def mml_up_def mml_m_def
  read_digit_def read_number_def strtol_def new_channel_state_def
  mml_note_def note_modifiers.simps note_modifier_def

lemma ideal_env_sel:
  "dbl ideal_env = ideal_dbl"
  "synth_freq ideal_env = 32000"
  "ADSR_TIME_UNITS ideal_env = 32"
  "voice_wf_setup_def ideal_env = (\<lambda>f v. Some (f, v))"
  "junk_frame ideal_env = (\<lambda>_ _. \<lparr>waveform = (0, 0), adsr_time_scale_1 = 0,
                                      adsr_release_start = 0\<rparr>)"
  "junk_isNoteCode ideal_env = (\<lambda>_. False)"
  by (simp_all add: ideal_env_def)

lemma ideal_dbl_sel:
  "d_lit ideal_dbl = of_rat"
  "d_of_int ideal_dbl = of_int"
  "d_add ideal_dbl = (+)"
  "d_sub ideal_dbl = (-)"
  "d_mul ideal_dbl = (*)"
  "d_div ideal_dbl = (/)"
  "d_pow ideal_dbl = (powr)"
  "d_round ideal_dbl = (\<lambda>x. of_int (c_round x))"
  "d_trunc ideal_dbl = (\<lambda>x. Some (c_trunc x))"
  by (simp_all add: ideal_dbl_def)

lemmas ideal_defs = set_note.simps get_adsr_time_scale_def add_channel_frame_def
  grow_frame_map_def dbl_to_int_def dbl_to_uint8_def c_int_def c_round_def c_trunc_def
  ARTICULATION_NORMAL_def ARTICULATION_LEGATO_def ARTICULATION_STACCATO_def
  ideal_env_sel ideal_dbl_sel

lemma stale_env_sel:
  "dbl stale_env = ideal_dbl"
  "synth_freq stale_env = 32000"
  "ADSR_TIME_UNITS stale_env = 32"
  "voice_wf_setup_def stale_env = (\<lambda>f v. Some (f, v))"
  "junk_state stale_env = (\<lambda>_. \<lparr>octave = 4, default_length = 4, default_length_dot = 0,
              tempo = 120, volume = 63, articulation = 7 / 8, isActive = False,
              running_time_seconds = 0, running_time_time_units = 64000\<rparr>)"
  "junk_frame stale_env = (\<lambda>_ _. \<lparr>waveform = (0, 0), adsr_time_scale_1 = 0,
                                      adsr_release_start = 0\<rparr>)"
  "junk_isNoteCode stale_env = (\<lambda>_. False)"
  by (simp_all add: stale_env_def ideal_env_def)

lemma cval_eq_iff: "cval a = cval b \<longleftrightarrow> a = b"
proof
  assume eq: "cval a = cval b"
  define m n where "m = (of_char a :: nat)" and "n = (of_char b :: nat)"
  have "m < 256" and "n < 256"
    by (simp_all add: m_def n_def)
  moreover have "(if int m < 128 then int m else int m - 256) =
                 (if int n < 128 then int n else int n - 256)"
    using eq unfolding cval_def Let_def m_def n_def .
  ultimately have "m = n"
    by (simp split: if_splits)
  then show "a = b"
    by (simp add: m_def n_def)
qed simp

lemma skip_comment_None: "CHR 0x0A \<notin> set cs \<Longrightarrow> skip_comment cs = None"
  by (induction cs) (auto simp: cval_eq_iff)

lemma peek_at: "i < length buf \<Longrightarrow> buf ! i = c \<Longrightarrow> peek buf i = cval c"
  by (simp add: peek_def)

lemma mml_loop_Next: "mml_step E buf st = Next st' \<Longrightarrow> mml_loop E buf st = mml_loop E buf st'"
  by (simp add: mml_loop.simps [of E buf st])

lemma mml_loop_Stop: "mml_step E buf st = Stop e st' \<Longrightarrow> mml_loop E buf st = (e, st')"
  by (simp add: mml_loop.simps [of E buf st])

text \<open>
  The frequencies of c and of d sharp in octave 4 with exact arithmetic, and the runs of
  the model that the examples below use.
\<close>

lemma two_powr_bounds:
  fixes a b :: real
  assumes "0 < q" and "0 \<le> a" and "a ^ q \<le> 2 ^ p" and "2 ^ p < b ^ q" and "0 \<le> b"
  shows "a \<le> 2 powr (real p / real q) \<and> 2 powr (real p / real q) < b"
proof -
  let ?r = "2 powr (real p / real q) :: real"
  have r0: "0 \<le> ?r"
    by simp
  have "?r ^ q = ?r powr real q"
    by (simp add: powr_realpow)
  also have "\<dots> = 2 powr (real p / real q * real q)"
    by (simp add: powr_powr)
  also have "\<dots> = 2 powr real p"
    using assms(1) by simp
  also have "\<dots> = 2 ^ p"
    by (simp add: powr_realpow)
  finally have rq: "?r ^ q = 2 ^ p" .
  have "a \<le> ?r"
  proof (rule ccontr)
    assume "\<not> a \<le> ?r"
    then have "?r < a" by simp
    then have "?r ^ q < a ^ q"
      using r0 assms(1) by (simp add: power_strict_mono)
    then show False
      using rq assms(3) by simp
  qed
  moreover have "?r < b"
  proof (rule ccontr)
    assume "\<not> ?r < b"
    then have "b \<le> ?r" by simp
    then have "b ^ q \<le> ?r ^ q"
      using assms(5) by (simp add: power_mono)
    then show False
      using rq assms(4) by simp
  qed
  ultimately show ?thesis ..
qed

lemma freq_c4: "get_freq_from_note ideal_env 99 False 4 = Inr 1046"
proof -
  have b: "1046 / 440 \<le> 2 powr (real 5 / real 4) \<and> 2 powr (real 5 / real 4) < (1047 / 440 :: real)"
    by (rule two_powr_bounds) (simp_all add: power_divide)
  then have lo: "1046 \<le> 440 * 2 powr (5 / 4 :: real)" and hi: "440 * 2 powr (5 / 4 :: real) < 1047"
    by simp_all
  then have "\<lfloor>440 * 2 powr (5 / 4 :: real)\<rfloor> = 1046"
    by (simp add: floor_unique)
  moreover have "0 \<le> 440 * 2 powr (5 / 4 :: real)"
    by simp
  ultimately have "c_trunc (440 * 2 powr (5 / 4 :: real)) = 1046"
    by (simp only: c_trunc_def if_True)
  moreover have "get_freq_from_note ideal_env 99 False 4 =
                 (let v = c_trunc (440 * 2 powr (5 / 4 :: real))
                  in if INT_MIN \<le> v \<and> v \<le> INT_MAX then Inr v else Inl FloatToInt)"
    by (simp add: get_freq_from_note_def get_freq_from_code_def dbl_to_int_def ideal_env_def
        ideal_dbl_def cval_def Let_def)
  ultimately show ?thesis
    by (simp add: INT_MIN_def INT_MAX_def)
qed

lemma freq_d_sharp_4: "get_freq_from_note ideal_env 100 True 4 = Inr 1244"
proof -
  have b: "1244 / 440 \<le> 2 powr (real 3 / real 2) \<and> 2 powr (real 3 / real 2) < (1245 / 440 :: real)"
    by (rule two_powr_bounds) (simp_all add: power_divide)
  then have lo: "1244 \<le> 440 * 2 powr (3 / 2 :: real)" and hi: "440 * 2 powr (3 / 2 :: real) < 1245"
    by simp_all
  then have "\<lfloor>440 * 2 powr (3 / 2 :: real)\<rfloor> = 1244"
    by (simp add: floor_unique)
  moreover have "0 \<le> 440 * 2 powr (3 / 2 :: real)"
    by simp
  ultimately have "c_trunc (440 * 2 powr (3 / 2 :: real)) = 1244"
    by (simp only: c_trunc_def if_True)
  moreover have "get_freq_from_note ideal_env 100 True 4 =
                 (let v = c_trunc (440 * 2 powr (3 / 2 :: real))
                  in if INT_MIN \<le> v \<and> v \<le> INT_MAX then Inr v else Inl FloatToInt)"
    by (simp add: get_freq_from_note_def get_freq_from_code_def dbl_to_int_def ideal_env_def
        ideal_dbl_def cval_def Let_def)
  ultimately show ?thesis
    by (simp add: INT_MIN_def INT_MAX_def)
qed

lemma c4_join_run:
  "mml_parse ideal_env ''c4&c8'' =
     (No_Return,
      \<lparr>line = 1, pos = 6, content = Suc (Suc (Suc (Suc (Suc (Suc 0))))),
       mml_channel_states =
         [\<lparr>octave = 4, default_length = 4, default_length_dot = 0, tempo = 120, volume = 63,
           articulation = 7 / 8, isActive = True, running_time_seconds = 3 / 4,
           running_time_time_units = 24000\<rparr>],
       frame_map =
         [[\<lparr>waveform = (1046, 63), adsr_time_scale_1 = 499, adsr_release_start = 27\<rparr>,
           \<lparr>waveform = (1046, 63), adsr_time_scale_1 = 249, adsr_release_start = 27\<rparr>]],
       errors = []\<rparr>)"
  by (simp add: mml_loop.simps plat_defs scan_defs ideal_defs freq_c4 Let_def)

lemma e_flat_run:
  "mml_parse ideal_env ''e-'' =
     (No_Return,
      \<lparr>line = 1, pos = 3, content = Suc (Suc (Suc 0)),
       mml_channel_states =
         [\<lparr>octave = 4, default_length = 4, default_length_dot = 0, tempo = 120, volume = 63,
           articulation = 7 / 8, isActive = True, running_time_seconds = 1 / 2,
           running_time_time_units = 16000\<rparr>],
       frame_map =
         [[\<lparr>waveform = (1244, 63), adsr_time_scale_1 = 499, adsr_release_start = 27\<rparr>]],
       errors = []\<rparr>)"
  by (simp add: mml_loop.simps plat_defs scan_defs ideal_defs freq_d_sharp_4 Let_def)

lemma f_flat_run:
  "fst (mml_parse ideal_env ''f-'') = Return_1 \<and>
   errors (snd (mml_parse ideal_env ''f-'')) = [(''Invalid sharp'', 1, 1)] \<and>
   fst (mml_parse ideal_env ''c-'') = Return_1 \<and>
   errors (snd (mml_parse ideal_env ''c-'')) = [(''Invalid sharp'', 1, 1)]"
  by (intro conjI; simp add: mml_loop.simps plat_defs scan_defs Let_def)

lemma long_note_run:
  "fst (mml_parse ideal_env ''o2t1l1a'') = Return_1 \<and>
   errors (snd (mml_parse ideal_env ''o2t1l1a'')) = [(''Can't pack frame: adsr time_scale'', 1, 7)]"
  by (intro conjI; simp add: mml_loop.simps plat_defs scan_defs ideal_defs get_freq_from_note_def get_freq_from_code_def Let_def)

subsection \<open>Join\<close>

text \<open>
  What a note that was set on one channel has done: the quantizer ran once on the state of
  the channel, and one frame holding its result was appended to the frames of the channel.
\<close>

lemma add_channel_frame_appends:
  assumes "add_channel_frame E ch f ts v a False st = Inr (True, st')"
  shows "\<exists>fr. st' = st\<lparr>frame_map := (grow_frame_map ch (frame_map st))
                          [ch := grow_frame_map ch (frame_map st) ! ch @ [fr]]\<rparr> \<and>
              adsr_time_scale_1 fr = word_of_int (ts - 1) \<and> ts \<le> 65535"
  using assms
  by (auto simp: add_channel_frame_def Let_def UINT16_MAX_def error_handler_def c_int_def
      split: option.splits sum.splits if_splits)

lemma set_note_single:
  assumes "set_note E n False [i] st = Inr (True, st')"
    and "isActive (mml_channel_states st ! i)"
  shows "\<exists>ts s' fr.
           get_adsr_time_scale E (mml_channel_states st ! i)
             (if length_note n < 0 then default_length (mml_channel_states st ! i)
              else length_note n)
             (if length_note n < 0 \<and> dot n = 0
              then default_length_dot (mml_channel_states st ! i) else dot n) = Inr (ts, s') \<and>
           st' = st\<lparr>mml_channel_states := (mml_channel_states st)[i := s'],
                     frame_map := (grow_frame_map i (frame_map st))
                          [i := grow_frame_map i (frame_map st) ! i @ [fr]]\<rparr> \<and>
           adsr_time_scale_1 fr = word_of_int (ts - 1) \<and> ts \<le> 65535"
  using assms
  by (auto simp: set_note.simps Let_def split: sum.splits prod.splits if_splits
      dest!: add_channel_frame_appends)

lemma get_adsr_time_scale_fields:
  assumes "get_adsr_time_scale E s l d = Inr (ts, s')"
  shows "\<exists>x u. s' = s\<lparr>running_time_seconds := x, running_time_time_units := u\<rparr>"
  using assms
  by (auto simp: get_adsr_time_scale_def Let_def split: sum.splits)

lemma note_step_cases:
  assumes "mml_step E buf st =
             (case set_note E n False is m of
                Inl f \<Rightarrow> Stop (Undefined f) m
              | Inr (ok, st') \<Rightarrow> if ok then Next st' else Stop Return_1 st')"
    and "fst (mml_loop E buf st) = No_Return"
  obtains st' where "set_note E n False is m = Inr (True, st')"
    and "mml_loop E buf st = mml_loop E buf st'"
proof (cases "set_note E n False is m")
  case (Inl f)
  then have "mml_step E buf st = Stop (Undefined f) m"
    using assms(1) by simp
  then have "fst (mml_loop E buf st) = Undefined f"
    by (simp add: mml_loop_Stop)
  then show ?thesis
    using assms(2) by simp
next
  case (Inr p)
  obtain ok st' where p: "p = (ok, st')"
    by (cases p)
  show ?thesis
  proof (cases ok)
    case True
    then have "mml_step E buf st = Next st'"
      using assms(1) Inr p by simp
    then show ?thesis
      using that Inr p True by (simp add: mml_loop_Next)
  next
    case False
    then have "mml_step E buf st = Stop Return_1 st'"
      using assms(1) Inr p by simp
    then have "fst (mml_loop E buf st) = Return_1"
      by (simp add: mml_loop_Stop)
    then show ?thesis
      using assms(2) by simp
  qed
qed

text \<open>
  Claim C1 does not hold of the code. \<^verbatim>\<open>join\<close> is set to 1 by the iteration that reads
  \<^verbatim>\<open>&\<close>, which then continues; the next iteration declares \<^verbatim>\<open>join\<close> again with the
  initialiser 0, so the frame emitter is never asked to edit the last frame. Whenever the
  compile of "c4&c8" reaches the end of the input, channel 0 is the only channel and has
  two frames: the first holds the time-unit count the quantizer gave for the quarter note,
  the second the count it gave for the eighth note (each stored minus 1).
\<close>

theorem join_appends_second_frame:
  assumes "fst (mml_parse E ''c4&c8'') = No_Return"
  shows "\<exists>ts1 s1 ts2 s2.
           get_adsr_time_scale E (new_channel_state (dbl E)) 4 0 = Inr (ts1, s1) \<and>
           get_adsr_time_scale E s1 8 0 = Inr (ts2, s2) \<and>
           map (map adsr_time_scale_1) (frame_map (snd (mml_parse E ''c4&c8''))) =
             [[word_of_int (ts1 - 1), word_of_int (ts2 - 1)]]"
proof -
  let ?buf = "''c4&c8''"
  let ?st0 = "reset_active_state E mml_init"
  let ?n1 = "\<lparr>code = 99, isPause = False, isNoteCode = False, length_note = 4, dot = 0,
              sharp = False, customLength = True, noteCode = - 1\<rparr>"
  let ?n2 = "\<lparr>code = 99, isPause = False, isNoteCode = False, length_note = 8, dot = 0,
              sharp = False, customLength = True, noteCode = - 1\<rparr>"
  let ?m1 = "\<lparr>line = 1, pos = 2, content = Suc (Suc 0),
              mml_channel_states = [new_channel_state (dbl E)],
              frame_map = [], errors = []\<rparr> :: ('a, 'b) mml_state"
  have l0: "fst (mml_loop E ?buf ?st0) = No_Return"
    using assms by (simp add: mml_parse_def)
  have e1: "mml_step E ?buf ?st0 =
              (case set_note E ?n1 False [0] ?m1 of
                 Inl f \<Rightarrow> Stop (Undefined f) ?m1
               | Inr (ok, st') \<Rightarrow> if ok then Next st' else Stop Return_1 st')"
    by (simp add: plat_defs scan_defs Let_def cong: sum.case_cong)
  obtain st1 where r1: "set_note E ?n1 False [0] ?m1 = Inr (True, st1)"
    and l1: "mml_loop E ?buf ?st0 = mml_loop E ?buf st1"
    using note_step_cases [OF e1 l0] by blast
  obtain ts1 s1 fr1 where q1: "get_adsr_time_scale E (new_channel_state (dbl E)) 4 0 = Inr (ts1, s1)"
    and st1: "st1 = ?m1\<lparr>mml_channel_states := [s1], frame_map := [[fr1]]\<rparr>"
    and d1: "adsr_time_scale_1 fr1 = word_of_int (ts1 - 1)"
    using set_note_single [OF r1] by (auto simp: grow_frame_map_def new_channel_state_def)
  obtain x u where s1: "s1 = (new_channel_state (dbl E))
                              \<lparr>running_time_seconds := x, running_time_time_units := u\<rparr>"
    using get_adsr_time_scale_fields [OF q1] by blast
  let ?st2 = "st1\<lparr>pos := 3, content := Suc (Suc (Suc 0))\<rparr>"
  let ?m2 = "st1\<lparr>pos := 5, content := Suc (Suc (Suc (Suc (Suc 0))))\<rparr>"
  have e2: "mml_step E ?buf st1 = Next ?st2"
    by (simp add: st1 plat_defs mml_step_def Let_def)
  have e3: "mml_step E ?buf ?st2 =
              (case set_note E ?n2 False [0] ?m2 of
                 Inl f \<Rightarrow> Stop (Undefined f) ?m2
               | Inr (ok, st') \<Rightarrow> if ok then Next st' else Stop Return_1 st')"
    by (simp add: st1 s1 plat_defs scan_defs Let_def cong: sum.case_cong)
  have l2: "fst (mml_loop E ?buf ?st2) = No_Return"
    using l0 l1 mml_loop_Next [OF e2] by simp
  obtain st3 where r3: "set_note E ?n2 False [0] ?m2 = Inr (True, st3)"
    and l3: "mml_loop E ?buf ?st2 = mml_loop E ?buf st3"
    using note_step_cases [OF e3 l2] by blast
  obtain ts2 s2 fr2 where q2: "get_adsr_time_scale E s1 8 0 = Inr (ts2, s2)"
    and st3: "st3 = ?m2\<lparr>mml_channel_states := [s2], frame_map := [[fr1, fr2]]\<rparr>"
    and d2: "adsr_time_scale_1 fr2 = word_of_int (ts2 - 1)"
    using set_note_single [OF r3]
    by (auto simp: st1 s1 grow_frame_map_def new_channel_state_def)
  have e4: "mml_step E ?buf st3 = Stop No_Return (st3\<lparr>pos := 6, content := 6\<rparr>)"
    by (simp add: st3 st1 plat_defs mml_step_def Let_def)
  have "mml_parse E ?buf = (No_Return, st3\<lparr>pos := 6, content := 6\<rparr>)"
    using l1 mml_loop_Next [OF e2] l3 mml_loop_Stop [OF e4] by (simp add: mml_parse_def)
  then have "map (map adsr_time_scale_1) (frame_map (snd (mml_parse E ?buf))) =
               [[word_of_int (ts1 - 1), word_of_int (ts2 - 1)]]"
    by (simp add: st3 d1 d2)
  with q1 q2 show ?thesis
    by (intro exI [of _ ts1] exI [of _ s1] exI [of _ ts2] exI [of _ s2] conjI)
qed

theorem join_appends_second_frame_witness:
  "fst (mml_parse ideal_env ''c4&c8'') = No_Return \<and>
   get_adsr_time_scale ideal_env (new_channel_state ideal_dbl) 4 0 =
     Inr (500, (new_channel_state ideal_dbl)
                 \<lparr>running_time_seconds := 1 / 2, running_time_time_units := 16000\<rparr>) \<and>
   get_adsr_time_scale ideal_env
       ((new_channel_state ideal_dbl)
          \<lparr>running_time_seconds := 1 / 2, running_time_time_units := 16000\<rparr>) 8 0 =
     Inr (250, (new_channel_state ideal_dbl)
                 \<lparr>running_time_seconds := 3 / 4, running_time_time_units := 24000\<rparr>) \<and>
   map (map adsr_time_scale_1) (frame_map (snd (mml_parse ideal_env ''c4&c8''))) =
     [[word_of_int (500 - 1), word_of_int (250 - 1)]]"
proof -
  have r: "fst (mml_parse ideal_env ''c4&c8'') = No_Return"
    by (simp add: c4_join_run)
  have q1: "get_adsr_time_scale ideal_env (new_channel_state ideal_dbl) 4 0 =
     Inr (500, (new_channel_state ideal_dbl)
                 \<lparr>running_time_seconds := 1 / 2, running_time_time_units := 16000\<rparr>)"
    by (simp add: ideal_defs new_channel_state_def INT_MIN_def INT_MAX_def Let_def)
  have q2: "get_adsr_time_scale ideal_env
       ((new_channel_state ideal_dbl)
          \<lparr>running_time_seconds := 1 / 2, running_time_time_units := 16000\<rparr>) 8 0 =
     Inr (250, (new_channel_state ideal_dbl)
                 \<lparr>running_time_seconds := 3 / 4, running_time_time_units := 24000\<rparr>)"
    by (simp add: ideal_defs new_channel_state_def INT_MIN_def INT_MAX_def Let_def)
  show ?thesis
    using join_appends_second_frame [OF r] q1 q2 r
    by (auto simp: ideal_env_sel)
qed

subsection \<open>Drift of the quantizer\<close>

lemma c_round_near: "\<bar>x - of_int (c_round x)\<bar> \<le> 1 / 2"
  unfolding c_round_def by (auto simp: abs_if; linarith)

lemma c_round_quotient:
  assumes "0 < A"
  shows "2 * \<bar>d - c_round (of_int d / of_int A) * A\<bar> \<le> A"
proof -
  let ?r = "c_round (real_of_int d / real_of_int A)"
  have A': "0 < real_of_int A"
    using assms by simp
  have n: "\<bar>real_of_int d / real_of_int A - real_of_int ?r\<bar> \<le> 1 / 2"
    by (rule c_round_near)
  have "real_of_int d - real_of_int ?r * real_of_int A =
        (real_of_int d / real_of_int A - real_of_int ?r) * real_of_int A"
    using A' by (simp add: field_simps)
  then have "\<bar>real_of_int d - real_of_int ?r * real_of_int A\<bar> =
             \<bar>real_of_int d / real_of_int A - real_of_int ?r\<bar> * real_of_int A"
    using A' by (simp add: abs_mult)
  also have "\<dots> \<le> 1 / 2 * real_of_int A"
    using n A' by (simp add: mult_right_mono)
  finally have "2 * \<bar>real_of_int d - real_of_int ?r * real_of_int A\<bar> \<le> real_of_int A"
    by simp
  then have "real_of_int (2 * \<bar>d - ?r * A\<bar>) \<le> real_of_int A"
    by simp
  then show ?thesis
    by (simp only: of_int_le_iff)
qed

lemma ideal_dbl_exact: "dbl_quotient_exact ideal_dbl"
  by (simp add: dbl_quotient_exact_def ideal_dbl_sel c_trunc_def)

text \<open>
  One call of the quantizer. Whenever \<^verbatim>\<open>get_adsr_time_scale\<close> returns, the integer
  accumulator \<^verbatim>\<open>running_time.time_units\<close> has advanced by the returned \<^verbatim>\<open>time_scale\<close>
  times \<^verbatim>\<open>ADSR_TIME_UNITS\<close>, and it is within \<^verbatim>\<open>ADSR_TIME_UNITS\<close> of
  \<^verbatim>\<open>(int)round(running_time.seconds * synth_freq)\<close>, whatever the state before the call
  was: \<^verbatim>\<open>time_scale\<close> is the rounded quotient of the distance to that rounded total.
\<close>

lemma get_adsr_time_scale_drift:
  assumes "dbl_quotient_exact (dbl E)"
    and "0 < ADSR_TIME_UNITS E" and "ADSR_TIME_UNITS E \<le> INT_MAX"
    and "INT_MIN \<le> running_time_time_units s" and "running_time_time_units s \<le> INT_MAX"
    and "get_adsr_time_scale E s len dots = Inr (time_scale, s')"
  shows "drift_bounded E s' \<and>
         running_time_time_units s' =
           running_time_time_units s + time_scale * ADSR_TIME_UNITS E"
proof -
  let ?F = "dbl E"
  let ?A = "ADSR_TIME_UNITS E"
  let ?tu = "running_time_time_units s"
  let ?secs = "running_time_seconds s'"
  obtain u where u: "dbl_to_int ?F (d_round ?F (d_mul ?F ?secs (d_of_int ?F (uint (synth_freq E))))) = Inr u"
    and ts: "dbl_to_int ?F (d_round ?F (d_div ?F (d_sub ?F (d_of_int ?F u) (d_of_int ?F ?tu))
                                           (d_of_int ?F ?A))) = Inr time_scale"
    and tu': "running_time_time_units s' = ?tu + time_scale * ?A"
    using assms(6)
    by (auto simp: get_adsr_time_scale_def Let_def c_int_def split: sum.splits if_splits)
  have ur: "INT_MIN \<le> u" "u \<le> INT_MAX"
    using u by (auto simp: dbl_to_int_def split: option.splits if_splits)
  have "d_trunc ?F (d_round ?F (d_div ?F (d_sub ?F (d_of_int ?F u) (d_of_int ?F ?tu))
                                   (d_of_int ?F ?A))) =
          Some (c_round (of_int (u - ?tu) / of_int ?A))"
    using assms(1-5) ur unfolding dbl_quotient_exact_def by blast
  then have "time_scale = c_round (of_int (u - ?tu) / of_int ?A)"
    using ts by (auto simp: dbl_to_int_def split: if_splits)
  then have "2 * \<bar>(u - ?tu) - time_scale * ?A\<bar> \<le> ?A"
    using c_round_quotient [OF assms(2), of "u - ?tu"] by simp
  then have "\<bar>running_time_time_units s' - u\<bar> \<le> ?A"
    unfolding tu' using assms(2) by (auto simp: abs_if split: if_splits)
  with u tu' show ?thesis
    unfolding drift_bounded_def by blast
qed

text \<open>
  What the note branch does to the table of channel states and to the frame map: the
  number readers and the modifier loop leave both alone, and the loop over the channels
  (always entered with \<^verbatim>\<open>join\<close> equal to 0) replaces the state of every active channel by
  the result of one call of the quantizer on it, and appends to the frames of that channel
  one frame that holds the returned \<^verbatim>\<open>time_scale\<close> minus one.
\<close>

lemma get_adsr_time_scale_range:
  "get_adsr_time_scale E s l d = Inr (ts, s') \<Longrightarrow>
     INT_MIN \<le> running_time_time_units s' \<and> running_time_time_units s' \<le> INT_MAX"
  by (auto simp: get_adsr_time_scale_def Let_def c_int_def split: sum.splits if_splits)

lemma channel_frames_appended:
  "channel_frames ((grow_frame_map k fm)[k := grow_frame_map k fm ! k @ [fr]]) i =
     (if i = k then channel_frames fm k @ [fr] else channel_frames fm i)"
  by (auto simp: channel_frames_def grow_frame_map_def nth_append nth_list_update)

lemma set_note_Cons:
  assumes "set_note E n False (k # ks) st = Inr (True, st')"
  shows "if isActive (mml_channel_states st ! k)
         then \<exists>n' len dots ts s1 fr.
                get_adsr_time_scale E (mml_channel_states st ! k) len dots = Inr (ts, s1) \<and>
                adsr_time_scale_1 fr = word_of_int (ts - 1) \<and> ts \<le> 65535 \<and>
                set_note E n' False ks
                  (st\<lparr>mml_channel_states := (mml_channel_states st)[k := s1],
                      frame_map := (grow_frame_map k (frame_map st))
                         [k := grow_frame_map k (frame_map st) ! k @ [fr]]\<rparr>) = Inr (True, st')
         else set_note E n False ks st = Inr (True, st')"
proof (cases "isActive (mml_channel_states st ! k)")
  case False
  then show ?thesis
    using assms by (simp add: set_note.simps Let_def)
next
  case True
  then obtain n' f l d ts s1 st1 where
    q: "get_adsr_time_scale E (mml_channel_states st ! k) l d = Inr (ts, s1)"
    and a: "add_channel_frame E k f ts (volume s1) (articulation s1) False
              (st\<lparr>mml_channel_states := (mml_channel_states st)[k := s1]\<rparr>) = Inr (True, st1)"
    and r: "set_note E n' False ks st1 = Inr (True, st')"
    using assms
    by (auto simp: set_note.simps Let_def split: sum.splits prod.splits if_splits)
  obtain fr where st1: "st1 = st\<lparr>mml_channel_states := (mml_channel_states st)[k := s1],
                      frame_map := (grow_frame_map k (frame_map st))
                         [k := grow_frame_map k (frame_map st) ! k @ [fr]]\<rparr>"
    and fr: "adsr_time_scale_1 fr = word_of_int (ts - 1)" "ts \<le> 65535"
    using add_channel_frame_appends [OF a] by auto
  have "\<exists>n' len dots ts s1 fr.
          get_adsr_time_scale E (mml_channel_states st ! k) len dots = Inr (ts, s1) \<and>
          adsr_time_scale_1 fr = word_of_int (ts - 1) \<and> ts \<le> 65535 \<and>
          set_note E n' False ks
            (st\<lparr>mml_channel_states := (mml_channel_states st)[k := s1],
                frame_map := (grow_frame_map k (frame_map st))
                   [k := grow_frame_map k (frame_map st) ! k @ [fr]]\<rparr>) = Inr (True, st')"
    using q r fr unfolding st1
    by (intro exI [of _ n'] exI [of _ l] exI [of _ d] exI [of _ ts] exI [of _ s1]
        exI [of _ fr] conjI)
  then show ?thesis
    using True by simp
qed

lemma set_note_effect:
  assumes "set_note E n False is st = Inr (True, st')" and "distinct is"
    and "\<forall>i\<in>set is. i < length (mml_channel_states st)"
  shows "length (mml_channel_states st') = length (mml_channel_states st) \<and>
         (\<forall>i. if i \<in> set is \<and> isActive (mml_channel_states st ! i)
               then \<exists>len dots ts fr.
                      get_adsr_time_scale E (mml_channel_states st ! i) len dots =
                        Inr (ts, mml_channel_states st' ! i) \<and>
                      channel_frames (frame_map st') i =
                        channel_frames (frame_map st) i @ [fr] \<and>
                      adsr_time_scale_1 fr = word_of_int (ts - 1) \<and> ts \<le> 65535
               else mml_channel_states st' ! i = mml_channel_states st ! i \<and>
                    channel_frames (frame_map st') i = channel_frames (frame_map st) i)"
  using assms
proof (induction "is" arbitrary: n st)
  case Nil
  then show ?case by (simp add: set_note.simps)
next
  case (Cons k ks)
  have k: "k \<notin> set ks" "distinct ks" "k < length (mml_channel_states st)"
    "\<forall>i\<in>set ks. i < length (mml_channel_states st)"
    using Cons.prems(2,3) by simp_all
  show ?case
  proof (cases "isActive (mml_channel_states st ! k)")
    case False
    then have r: "set_note E n False ks st = Inr (True, st')"
      using set_note_Cons [OF Cons.prems(1)] by simp
    have IH: "length (mml_channel_states st') = length (mml_channel_states st) \<and>
         (\<forall>i. if i \<in> set ks \<and> isActive (mml_channel_states st ! i)
               then \<exists>len dots ts fr.
                      get_adsr_time_scale E (mml_channel_states st ! i) len dots =
                        Inr (ts, mml_channel_states st' ! i) \<and>
                      channel_frames (frame_map st') i =
                        channel_frames (frame_map st) i @ [fr] \<and>
                      adsr_time_scale_1 fr = word_of_int (ts - 1) \<and> ts \<le> 65535
               else mml_channel_states st' ! i = mml_channel_states st ! i \<and>
                    channel_frames (frame_map st') i = channel_frames (frame_map st) i)"
      by (rule Cons.IH [OF r k(2) k(4)])
    have eq: "(i \<in> set (k # ks) \<and> isActive (mml_channel_states st ! i)) =
          (i \<in> set ks \<and> isActive (mml_channel_states st ! i))" for i
      using False by auto
    show ?thesis
      unfolding eq by (rule IH)
  next
    case True
    then obtain n' l d ts s1 fr where
      q: "get_adsr_time_scale E (mml_channel_states st ! k) l d = Inr (ts, s1)"
      and fr: "adsr_time_scale_1 fr = word_of_int (ts - 1)" "ts \<le> 65535"
      and r: "set_note E n' False ks
                (st\<lparr>mml_channel_states := (mml_channel_states st)[k := s1],
                    frame_map := (grow_frame_map k (frame_map st))
                       [k := grow_frame_map k (frame_map st) ! k @ [fr]]\<rparr>) = Inr (True, st')"
      using set_note_Cons [OF Cons.prems(1)] by auto
    define st1 where "st1 = st\<lparr>mml_channel_states := (mml_channel_states st)[k := s1],
                    frame_map := (grow_frame_map k (frame_map st))
                       [k := grow_frame_map k (frame_map st) ! k @ [fr]]\<rparr>"
    have s1: "mml_channel_states st1 = (mml_channel_states st)[k := s1]"
      and f1: "\<And>i. channel_frames (frame_map st1) i =
                 (if i = k then channel_frames (frame_map st) k @ [fr]
                  else channel_frames (frame_map st) i)"
      by (simp_all add: st1_def channel_frames_appended)
    have r1: "set_note E n' False ks st1 = Inr (True, st')"
      using r by (simp add: st1_def)
    have k1: "\<forall>i\<in>set ks. i < length (mml_channel_states st1)"
      using k(4) s1 by simp
    have IH: "length (mml_channel_states st') = length (mml_channel_states st1) \<and>
         (\<forall>i. if i \<in> set ks \<and> isActive (mml_channel_states st1 ! i)
               then \<exists>len dots ts fr.
                      get_adsr_time_scale E (mml_channel_states st1 ! i) len dots =
                        Inr (ts, mml_channel_states st' ! i) \<and>
                      channel_frames (frame_map st') i =
                        channel_frames (frame_map st1) i @ [fr] \<and>
                      adsr_time_scale_1 fr = word_of_int (ts - 1) \<and> ts \<le> 65535
               else mml_channel_states st' ! i = mml_channel_states st1 ! i \<and>
                    channel_frames (frame_map st') i = channel_frames (frame_map st1) i)"
      by (rule Cons.IH [OF r1 k(2) k1])
    show ?thesis
    proof (intro conjI allI)
      show "length (mml_channel_states st') = length (mml_channel_states st)"
        using IH s1 by simp
    next
      fix i
      show "if i \<in> set (k # ks) \<and> isActive (mml_channel_states st ! i)
               then \<exists>len dots ts fr.
                      get_adsr_time_scale E (mml_channel_states st ! i) len dots =
                        Inr (ts, mml_channel_states st' ! i) \<and>
                      channel_frames (frame_map st') i =
                        channel_frames (frame_map st) i @ [fr] \<and>
                      adsr_time_scale_1 fr = word_of_int (ts - 1) \<and> ts \<le> 65535
               else mml_channel_states st' ! i = mml_channel_states st ! i \<and>
                    channel_frames (frame_map st') i = channel_frames (frame_map st) i"
      proof (cases "i = k")
        case ik: True
        have "mml_channel_states st' ! k = mml_channel_states st1 ! k \<and>
              channel_frames (frame_map st') k = channel_frames (frame_map st1) k"
          using IH k(1) by (auto split: if_splits)
        then have "mml_channel_states st' ! k = s1"
          and "channel_frames (frame_map st') k = channel_frames (frame_map st) k @ [fr]"
          using s1 f1 k(3) by simp_all
        then have "get_adsr_time_scale E (mml_channel_states st ! k) l d =
                     Inr (ts, mml_channel_states st' ! k) \<and>
                   channel_frames (frame_map st') k =
                     channel_frames (frame_map st) k @ [fr] \<and>
                   adsr_time_scale_1 fr = word_of_int (ts - 1) \<and> ts \<le> 65535"
          using q fr by simp
        then show ?thesis
          unfolding ik using True by auto
      next
        case False
        then have same: "mml_channel_states st1 ! i = mml_channel_states st ! i"
          "channel_frames (frame_map st1) i = channel_frames (frame_map st) i"
          using s1 f1 by simp_all
        have "if i \<in> set ks \<and> isActive (mml_channel_states st1 ! i)
               then \<exists>len dots ts fr.
                      get_adsr_time_scale E (mml_channel_states st1 ! i) len dots =
                        Inr (ts, mml_channel_states st' ! i) \<and>
                      channel_frames (frame_map st') i =
                        channel_frames (frame_map st1) i @ [fr] \<and>
                      adsr_time_scale_1 fr = word_of_int (ts - 1) \<and> ts \<le> 65535
               else mml_channel_states st' ! i = mml_channel_states st1 ! i \<and>
                    channel_frames (frame_map st') i = channel_frames (frame_map st1) i"
          using IH by blast
        then show ?thesis
          unfolding same using False by simp
      qed
    qed
  qed
qed

lemma read_number_tables:
  "read_number buf st = (r, st') \<Longrightarrow>
     mml_channel_states st' = mml_channel_states st \<and> frame_map st' = frame_map st"
  by (auto simp: read_number_def Let_def split: prod.splits if_splits)

lemma note_modifier_tables:
  "note_modifier buf n st = M_Continue n' st' \<Longrightarrow>
     mml_channel_states st' = mml_channel_states st \<and> frame_map st' = frame_map st"
  unfolding note_modifier_def Let_def
  by (auto split: if_splits prod.splits dest: read_number_tables)

lemma note_modifier_break:
  "note_modifier buf n st = M_Break n' st' \<Longrightarrow> st' = st"
  unfolding note_modifier_def Let_def
  by (auto split: if_splits prod.splits)

lemma note_modifiers_tables:
  "note_modifiers buf n st = Inr (n', st') \<Longrightarrow>
     mml_channel_states st' = mml_channel_states st \<and> frame_map st' = frame_map st"
proof (induction buf n st rule: note_modifiers.induct)
  case (1 buf n st)
  show ?case
  proof (cases "note_modifier buf n st")
    case (M_Continue n1 st1)
    with "1.prems" have "note_modifiers buf n1 st1 = Inr (n', st')"
      by (simp add: note_modifiers.simps [of buf n st])
    then have "mml_channel_states st' = mml_channel_states st1 \<and> frame_map st' = frame_map st1"
      using "1.IH" M_Continue by blast
    then show ?thesis
      using note_modifier_tables [OF M_Continue] by simp
  next
    case (M_Break n1 st1)
    with "1.prems" have "st' = st1"
      by (simp add: note_modifiers.simps [of buf n st])
    then show ?thesis
      using note_modifier_break [OF M_Break] by simp
  next
    case (M_Return st1)
    with "1.prems" show ?thesis
      by (simp add: note_modifiers.simps [of buf n st])
  qed
qed

lemma mml_note_Next_tables:
  assumes "mml_note E buf cur c join st = Next st'"
  shows "\<exists>n stm. mml_channel_states stm = mml_channel_states st \<and>
           frame_map stm = frame_map st \<and>
           set_note E n join [0 ..< length (mml_channel_states stm)] stm = Inr (True, st')"
  using assms unfolding mml_note_def Let_def
  by (auto split: sum.splits prod.splits if_splits dest: note_modifiers_tables)

lemma note_entry_step:
  assumes "content st < length buf" and "c = cval (buf ! content st)"
    and "c = cval CHR ''p'' \<or> c = cval CHR ''r'' \<or> c = cval CHR ''n'' \<or>
         (cval CHR ''a'' \<le> c \<and> c \<le> cval CHR ''g'')"
  shows "mml_step E buf st =
           mml_note E buf (content st) c False
             (st\<lparr>pos := pos st + 1, content := content st + 1\<rparr>)"
proof -
  have pk: "peek buf (content st) = c"
    using assms(1,2) by (simp add: peek_def)
  have "c = 112 \<or> c = 114 \<or> c = 110 \<or> (97 \<le> c \<and> c \<le> 103)"
    using assms(3) by (simp add: cval_def)
  then show ?thesis
    using assms(1)
    by (elim disjE; simp add: mml_step_def Let_def pk cval_def [of "CHR ''A''"]
        cval_def [of "CHR ''Z''"] cval_def [of "CHR ''a''"] cval_def [of "CHR ''g''"]
        cval_def [of "CHR ''|''"] cval_def [of "CHR ''#''"] cval_def [of "CHR '';''"]
        cval_def [of "CHR ''&''"] cval_def [of "CHR ''o''"] cval_def [of "CHR ''l''"]
        cval_def [of "CHR ''t''"] cval_def [of "CHR ''v''"] cval_def [of "CHR ''<''"]
        cval_def [of "CHR ''>''"] cval_def [of "CHR ''m''"] cval_def [of "CHR ''p''"]
        cval_def [of "CHR ''r''"] cval_def [of "CHR ''n''"] cval_def [of "CHR 0x0A"]
        cval_def [of "CHR 0x0D"])
qed

text \<open>Two rests in a row, "r8." then "r4", on channel 0 of a fresh state.\<close>

lemma rest_step_1:
  "mml_step ideal_env ''r8.r4'' (reset_active_state ideal_env mml_init) =
     Next \<lparr>line = 1, pos = 3, content = Suc (Suc (Suc 0)),
           mml_channel_states =
             [\<lparr>octave = 4, default_length = 4, default_length_dot = 0, tempo = 120,
               volume = 63, articulation = 7 / 8, isActive = True,
               running_time_seconds = 3 / 8, running_time_time_units = 12000\<rparr>],
           frame_map =
             [[\<lparr>waveform = (0, 0), adsr_time_scale_1 = 374, adsr_release_start = 27\<rparr>]],
           errors = []\<rparr>"
  by (simp add: plat_defs scan_defs ideal_defs Let_def of_rat_divide)

lemma rest_step_2:
  "mml_step ideal_env ''r8.r4''
     \<lparr>line = 1, pos = 3, content = Suc (Suc (Suc 0)),
      mml_channel_states =
        [\<lparr>octave = 4, default_length = 4, default_length_dot = 0, tempo = 120,
          volume = 63, articulation = 7 / 8, isActive = True,
          running_time_seconds = 3 / 8, running_time_time_units = 12000\<rparr>],
      frame_map =
        [[\<lparr>waveform = (0, 0), adsr_time_scale_1 = 374, adsr_release_start = 27\<rparr>]],
      errors = []\<rparr> =
     Next \<lparr>line = 1, pos = 5, content = Suc (Suc (Suc (Suc (Suc 0)))),
           mml_channel_states =
             [\<lparr>octave = 4, default_length = 4, default_length_dot = 0, tempo = 120,
               volume = 63, articulation = 7 / 8, isActive = True,
               running_time_seconds = 7 / 8, running_time_time_units = 28000\<rparr>],
           frame_map =
             [[\<lparr>waveform = (0, 0), adsr_time_scale_1 = 374, adsr_release_start = 27\<rparr>,
               \<lparr>waveform = (0, 0), adsr_time_scale_1 = 499, adsr_release_start = 27\<rparr>]],
           errors = []\<rparr>"
  by (simp add: plat_defs scan_defs ideal_defs Let_def of_rat_divide)

text \<open>
  One note or rest. Let the scanner stand on the entry character of a note or a rest (a
  letter \<^verbatim>\<open>a\<close> to \<^verbatim>\<open>g\<close>, \<^verbatim>\<open>n\<close>, \<^verbatim>\<open>p\<close> or \<^verbatim>\<open>r\<close>), and let the iteration of the loop of
  \<^verbatim>\<open>mml_parse\<close> that processes it run to its end. Then, for every channel that is active, one
  frame was handed to the frame emitter with some \<^verbatim>\<open>time_scale\<close> of at most 65535 (the new last
  frame of the channel holds \<^verbatim>\<open>time_scale - 1\<close>), the integer accumulator
  \<^verbatim>\<open>running_time.time_units\<close> has advanced by \<^verbatim>\<open>ADSR_TIME_UNITS\<close> times that \<^verbatim>\<open>time_scale\<close>, it is
  still an \<^verbatim>\<open>int\<close>, and it differs from \<^verbatim>\<open>(int)round(running_time.seconds * synth_freq)\<close> by at
  most \<^verbatim>\<open>ADSR_TIME_UNITS\<close>. The state and the frames of a channel that is not active are
  unchanged, and the table of channels keeps its size. Nothing is said of what the
  accumulator was before the note: on a channel whose accumulators started at 0 the
  accumulator is then \<^verbatim>\<open>ADSR_TIME_UNITS\<close> times the sum of the counts handed over.
\<close>

theorem note_keeps_drift_bounded:
  assumes "dbl_quotient_exact (dbl E)"
    and "0 < ADSR_TIME_UNITS E" and "ADSR_TIME_UNITS E \<le> INT_MAX"
    and "\<forall>s\<in>set (mml_channel_states st).
           INT_MIN \<le> running_time_time_units s \<and> running_time_time_units s \<le> INT_MAX"
    and "content st < length buf" and "c = cval (buf ! content st)"
    and "c = cval CHR ''p'' \<or> c = cval CHR ''r'' \<or> c = cval CHR ''n'' \<or>
         (cval CHR ''a'' \<le> c \<and> c \<le> cval CHR ''g'')"
    and "mml_step E buf st = Next st'"
  shows "length (mml_channel_states st') = length (mml_channel_states st) \<and>
         (\<forall>i<length (mml_channel_states st).
            if isActive (mml_channel_states st ! i)
            then drift_bounded E (mml_channel_states st' ! i) \<and>
                 INT_MIN \<le> running_time_time_units (mml_channel_states st' ! i) \<and>
                 running_time_time_units (mml_channel_states st' ! i) \<le> INT_MAX \<and>
                 (\<exists>time_scale fr.
                    channel_frames (frame_map st') i =
                      channel_frames (frame_map st) i @ [fr] \<and>
                    adsr_time_scale_1 fr = word_of_int (time_scale - 1) \<and>
                    time_scale \<le> UINT16_MAX \<and>
                    running_time_time_units (mml_channel_states st' ! i) =
                      running_time_time_units (mml_channel_states st ! i) +
                        time_scale * ADSR_TIME_UNITS E)
            else mml_channel_states st' ! i = mml_channel_states st ! i \<and>
                 channel_frames (frame_map st') i = channel_frames (frame_map st) i)"
proof -
  let ?st1 = "st\<lparr>pos := pos st + 1, content := content st + 1\<rparr>"
  have "mml_note E buf (content st) c False ?st1 = Next st'"
    using note_entry_step [OF assms(5-7)] assms(8) by simp
  then obtain n stm where stm: "mml_channel_states stm = mml_channel_states st"
    "frame_map stm = frame_map st"
    and sn: "set_note E n False [0 ..< length (mml_channel_states stm)] stm = Inr (True, st')"
    using mml_note_Next_tables by fastforce
  have all: "length (mml_channel_states st') = length (mml_channel_states stm) \<and>
         (\<forall>i. if i \<in> set [0 ..< length (mml_channel_states stm)] \<and>
                  isActive (mml_channel_states stm ! i)
               then \<exists>len dots ts fr.
                      get_adsr_time_scale E (mml_channel_states stm ! i) len dots =
                        Inr (ts, mml_channel_states st' ! i) \<and>
                      channel_frames (frame_map st') i =
                        channel_frames (frame_map stm) i @ [fr] \<and>
                      adsr_time_scale_1 fr = word_of_int (ts - 1) \<and> ts \<le> 65535
               else mml_channel_states st' ! i = mml_channel_states stm ! i \<and>
                    channel_frames (frame_map st') i = channel_frames (frame_map stm) i)"
    by (rule set_note_effect [OF sn]) simp_all
  show ?thesis
  proof (intro conjI allI impI)
    show "length (mml_channel_states st') = length (mml_channel_states st)"
      using all stm by simp
  next
    fix i
    assume i: "i < length (mml_channel_states st)"
    let ?s = "mml_channel_states st ! i"
    have rng: "INT_MIN \<le> running_time_time_units ?s" "running_time_time_units ?s \<le> INT_MAX"
      using assms(4) i by simp_all
    have "if i \<in> set [0 ..< length (mml_channel_states stm)] \<and>
                  isActive (mml_channel_states stm ! i)
               then \<exists>len dots ts fr.
                      get_adsr_time_scale E (mml_channel_states stm ! i) len dots =
                        Inr (ts, mml_channel_states st' ! i) \<and>
                      channel_frames (frame_map st') i =
                        channel_frames (frame_map stm) i @ [fr] \<and>
                      adsr_time_scale_1 fr = word_of_int (ts - 1) \<and> ts \<le> 65535
               else mml_channel_states st' ! i = mml_channel_states stm ! i \<and>
                    channel_frames (frame_map st') i = channel_frames (frame_map stm) i"
      using all by blast
    then have ai: "if isActive ?s
              then \<exists>len dots ts fr.
                      get_adsr_time_scale E ?s len dots = Inr (ts, mml_channel_states st' ! i) \<and>
                      channel_frames (frame_map st') i =
                        channel_frames (frame_map st) i @ [fr] \<and>
                      adsr_time_scale_1 fr = word_of_int (ts - 1) \<and> ts \<le> 65535
              else mml_channel_states st' ! i = ?s \<and>
                   channel_frames (frame_map st') i = channel_frames (frame_map st) i"
      unfolding stm using i by simp
    show "if isActive ?s
            then drift_bounded E (mml_channel_states st' ! i) \<and>
                 INT_MIN \<le> running_time_time_units (mml_channel_states st' ! i) \<and>
                 running_time_time_units (mml_channel_states st' ! i) \<le> INT_MAX \<and>
                 (\<exists>time_scale fr.
                    channel_frames (frame_map st') i =
                      channel_frames (frame_map st) i @ [fr] \<and>
                    adsr_time_scale_1 fr = word_of_int (time_scale - 1) \<and>
                    time_scale \<le> UINT16_MAX \<and>
                    running_time_time_units (mml_channel_states st' ! i) =
                      running_time_time_units ?s + time_scale * ADSR_TIME_UNITS E)
            else mml_channel_states st' ! i = ?s \<and>
                 channel_frames (frame_map st') i = channel_frames (frame_map st) i"
    proof (cases "isActive ?s")
      case True
      then obtain len dots ts fr where
        q: "get_adsr_time_scale E ?s len dots = Inr (ts, mml_channel_states st' ! i)"
        and f: "channel_frames (frame_map st') i = channel_frames (frame_map st) i @ [fr]"
          "adsr_time_scale_1 fr = word_of_int (ts - 1)" "ts \<le> UINT16_MAX"
        unfolding UINT16_MAX_def using ai by auto
      have d: "drift_bounded E (mml_channel_states st' ! i)"
        and t: "running_time_time_units (mml_channel_states st' ! i) =
                  running_time_time_units ?s + ts * ADSR_TIME_UNITS E"
        using get_adsr_time_scale_drift [OF assms(1-3) rng q] by simp_all
      have "\<exists>time_scale fr.
              channel_frames (frame_map st') i = channel_frames (frame_map st) i @ [fr] \<and>
              adsr_time_scale_1 fr = word_of_int (time_scale - 1) \<and>
              time_scale \<le> UINT16_MAX \<and>
              running_time_time_units (mml_channel_states st' ! i) =
                running_time_time_units ?s + time_scale * ADSR_TIME_UNITS E"
        using f t by (intro exI [of _ ts] exI [of _ fr] conjI)
      then show ?thesis
        using True d get_adsr_time_scale_range [OF q] by simp
    next
      case False
      then show ?thesis
        using ai by simp
    qed
  qed
qed

theorem note_keeps_drift_bounded_witness:
  "dbl_quotient_exact (dbl ideal_env) \<and>
   mml_step ideal_env ''r8.r4'' (reset_active_state ideal_env mml_init) =
     Next \<lparr>line = 1, pos = 3, content = Suc (Suc (Suc 0)),
      mml_channel_states =
        [\<lparr>octave = 4, default_length = 4, default_length_dot = 0, tempo = 120,
          volume = 63, articulation = 7 / 8, isActive = True,
          running_time_seconds = 3 / 8, running_time_time_units = 12000\<rparr>],
      frame_map =
        [[\<lparr>waveform = (0, 0), adsr_time_scale_1 = 374, adsr_release_start = 27\<rparr>]],
      errors = []\<rparr> \<and>
   mml_step ideal_env ''r8.r4''
     \<lparr>line = 1, pos = 3, content = Suc (Suc (Suc 0)),
      mml_channel_states =
        [\<lparr>octave = 4, default_length = 4, default_length_dot = 0, tempo = 120,
          volume = 63, articulation = 7 / 8, isActive = True,
          running_time_seconds = 3 / 8, running_time_time_units = 12000\<rparr>],
      frame_map =
        [[\<lparr>waveform = (0, 0), adsr_time_scale_1 = 374, adsr_release_start = 27\<rparr>]],
      errors = []\<rparr> =
     Next \<lparr>line = 1, pos = 5, content = Suc (Suc (Suc (Suc (Suc 0)))),
           mml_channel_states =
             [\<lparr>octave = 4, default_length = 4, default_length_dot = 0, tempo = 120,
               volume = 63, articulation = 7 / 8, isActive = True,
               running_time_seconds = 7 / 8, running_time_time_units = 28000\<rparr>],
           frame_map =
             [[\<lparr>waveform = (0, 0), adsr_time_scale_1 = 374, adsr_release_start = 27\<rparr>,
               \<lparr>waveform = (0, 0), adsr_time_scale_1 = 499, adsr_release_start = 27\<rparr>]],
           errors = []\<rparr> \<and>
   drift_bounded ideal_env
     \<lparr>octave = 4, default_length = 4, default_length_dot = 0, tempo = 120,
      volume = 63, articulation = 7 / 8, isActive = True,
      running_time_seconds = 7 / 8, running_time_time_units = 28000\<rparr> \<and>
   (\<exists>time_scale.
      (499 :: 16 word) = word_of_int (time_scale - 1) \<and> time_scale \<le> UINT16_MAX \<and>
      (28000 :: int) = 12000 + time_scale * ADSR_TIME_UNITS ideal_env)"
proof -
  let ?st = "\<lparr>line = 1, pos = 3, content = Suc (Suc (Suc 0)),
      mml_channel_states =
        [\<lparr>octave = 4, default_length = 4, default_length_dot = 0, tempo = 120,
          volume = 63, articulation = 7 / 8, isActive = True,
          running_time_seconds = 3 / 8 :: real, running_time_time_units = 12000\<rparr>],
      frame_map =
        [[\<lparr>waveform = (0 :: int, 0 :: int), adsr_time_scale_1 = 374,
           adsr_release_start = 27\<rparr>]],
      errors = []\<rparr>"
  have e: "dbl_quotient_exact (dbl ideal_env)"
    by (simp add: ideal_env_sel ideal_dbl_exact)
  show ?thesis
    using note_keeps_drift_bounded [where E = ideal_env and buf = "''r8.r4''" and st = ?st
        and c = "cval CHR ''r''", OF e _ _ _ _ _ _ rest_step_2] e rest_step_1 rest_step_2
    by (simp add: ideal_env_sel INT_MIN_def INT_MAX_def channel_frames_def)
qed

text \<open>
  Channels that are skipped. \<^verbatim>\<open>enable_channel\<close> initialises the entry of the channel it is
  called for and no other: when the table grows by more than one entry, the entries in
  between hold what realloc left there (the frame emitter, in its block "New channel?",
  initialises every new list).
\<close>

lemma enable_channel_gap:
  assumes "length (mml_channel_states st) < channel"
  shows "mml_channel_states (enable_channel E channel st) ! length (mml_channel_states st) =
           junk_state E (length (mml_channel_states st))"
  using assms by (simp add: enable_channel_def Let_def nth_append)

text \<open>
  The compile of "Cr4", and of the two lines "Cr4" and "Br4", where the memory of the
  skipped entry holds an accumulator of 64000 time units.
\<close>

lemma gap_run_one_line:
  "mml_parse stale_env ''Cr4'' =
     (No_Return,
      \<lparr>line = 1, pos = 4, content = Suc (Suc (Suc (Suc 0))),
        mml_channel_states =
          [\<lparr>octave = 4, default_length = 4, default_length_dot = 0, tempo = 120,
             volume = 63, articulation = 7 / 8, isActive = False,
             running_time_seconds = 0, running_time_time_units = 0\<rparr>,
           \<lparr>octave = 4, default_length = 4, default_length_dot = 0, tempo = 120,
             volume = 63, articulation = 7 / 8, isActive = False,
             running_time_seconds = 0, running_time_time_units = 64000\<rparr>,
           \<lparr>octave = 4, default_length = 4, default_length_dot = 0, tempo = 120,
             volume = 63, articulation = 7 / 8, isActive = True,
             running_time_seconds = 1 / 2, running_time_time_units = 16000\<rparr>],
        frame_map = [[], [], [\<lparr>waveform = (0, 0), adsr_time_scale_1 = 499, adsr_release_start = 27\<rparr>]], errors = []\<rparr>)"
proof -
  have s1: "mml_step stale_env ''Cr4''
      (reset_active_state stale_env mml_init) =
    Next \<lparr>line = 1, pos = 1, content = Suc 0,
        mml_channel_states =
          [\<lparr>octave = 4, default_length = 4, default_length_dot = 0, tempo = 120,
             volume = 63, articulation = 7 / 8, isActive = False,
             running_time_seconds = 0, running_time_time_units = 0\<rparr>,
           \<lparr>octave = 4, default_length = 4, default_length_dot = 0, tempo = 120,
             volume = 63, articulation = 7 / 8, isActive = False,
             running_time_seconds = 0, running_time_time_units = 64000\<rparr>,
           \<lparr>octave = 4, default_length = 4, default_length_dot = 0, tempo = 120,
             volume = 63, articulation = 7 / 8, isActive = True,
             running_time_seconds = 0, running_time_time_units = 0\<rparr>],
        frame_map = [], errors = []\<rparr>"
    by (simp add: plat_defs scan_defs ideal_defs stale_env_sel Let_def numeral_2_eq_2)
  have s2: "mml_step stale_env ''Cr4''
      \<lparr>line = 1, pos = 1, content = Suc 0,
        mml_channel_states =
          [\<lparr>octave = 4, default_length = 4, default_length_dot = 0, tempo = 120,
             volume = 63, articulation = 7 / 8, isActive = False,
             running_time_seconds = 0, running_time_time_units = 0\<rparr>,
           \<lparr>octave = 4, default_length = 4, default_length_dot = 0, tempo = 120,
             volume = 63, articulation = 7 / 8, isActive = False,
             running_time_seconds = 0, running_time_time_units = 64000\<rparr>,
           \<lparr>octave = 4, default_length = 4, default_length_dot = 0, tempo = 120,
             volume = 63, articulation = 7 / 8, isActive = True,
             running_time_seconds = 0, running_time_time_units = 0\<rparr>],
        frame_map = [], errors = []\<rparr> =
    Next \<lparr>line = 1, pos = 3, content = Suc (Suc (Suc 0)),
        mml_channel_states =
          [\<lparr>octave = 4, default_length = 4, default_length_dot = 0, tempo = 120,
             volume = 63, articulation = 7 / 8, isActive = False,
             running_time_seconds = 0, running_time_time_units = 0\<rparr>,
           \<lparr>octave = 4, default_length = 4, default_length_dot = 0, tempo = 120,
             volume = 63, articulation = 7 / 8, isActive = False,
             running_time_seconds = 0, running_time_time_units = 64000\<rparr>,
           \<lparr>octave = 4, default_length = 4, default_length_dot = 0, tempo = 120,
             volume = 63, articulation = 7 / 8, isActive = True,
             running_time_seconds = 1 / 2, running_time_time_units = 16000\<rparr>],
        frame_map = [[], [], [\<lparr>waveform = (0, 0), adsr_time_scale_1 = 499, adsr_release_start = 27\<rparr>]], errors = []\<rparr>"
    by (simp add: plat_defs scan_defs ideal_defs stale_env_sel Let_def of_rat_divide)
  have s3: "mml_step stale_env ''Cr4''
      \<lparr>line = 1, pos = 3, content = Suc (Suc (Suc 0)),
        mml_channel_states =
          [\<lparr>octave = 4, default_length = 4, default_length_dot = 0, tempo = 120,
             volume = 63, articulation = 7 / 8, isActive = False,
             running_time_seconds = 0, running_time_time_units = 0\<rparr>,
           \<lparr>octave = 4, default_length = 4, default_length_dot = 0, tempo = 120,
             volume = 63, articulation = 7 / 8, isActive = False,
             running_time_seconds = 0, running_time_time_units = 64000\<rparr>,
           \<lparr>octave = 4, default_length = 4, default_length_dot = 0, tempo = 120,
             volume = 63, articulation = 7 / 8, isActive = True,
             running_time_seconds = 1 / 2, running_time_time_units = 16000\<rparr>],
        frame_map = [[], [], [\<lparr>waveform = (0, 0), adsr_time_scale_1 = 499, adsr_release_start = 27\<rparr>]], errors = []\<rparr> =
    Stop No_Return \<lparr>line = 1, pos = 4, content = Suc (Suc (Suc (Suc 0))),
        mml_channel_states =
          [\<lparr>octave = 4, default_length = 4, default_length_dot = 0, tempo = 120,
             volume = 63, articulation = 7 / 8, isActive = False,
             running_time_seconds = 0, running_time_time_units = 0\<rparr>,
           \<lparr>octave = 4, default_length = 4, default_length_dot = 0, tempo = 120,
             volume = 63, articulation = 7 / 8, isActive = False,
             running_time_seconds = 0, running_time_time_units = 64000\<rparr>,
           \<lparr>octave = 4, default_length = 4, default_length_dot = 0, tempo = 120,
             volume = 63, articulation = 7 / 8, isActive = True,
             running_time_seconds = 1 / 2, running_time_time_units = 16000\<rparr>],
        frame_map = [[], [], [\<lparr>waveform = (0, 0), adsr_time_scale_1 = 499, adsr_release_start = 27\<rparr>]], errors = []\<rparr>"
    by (simp add: plat_defs scan_defs ideal_defs stale_env_sel Let_def of_rat_divide)
  show ?thesis
    unfolding mml_parse_def
    by (simp only: mml_loop_Next [OF s1] mml_loop_Next [OF s2] mml_loop_Stop [OF s3])
qed

lemma gap_run_two_lines:
  "mml_parse stale_env ''Cr4\<newline>Br4'' =
     (No_Return,
      \<lparr>line = 2, pos = 4, content = Suc (Suc (Suc (Suc (Suc (Suc (Suc (Suc 0))))))),
        mml_channel_states =
          [\<lparr>octave = 4, default_length = 4, default_length_dot = 0, tempo = 120,
             volume = 63, articulation = 7 / 8, isActive = False,
             running_time_seconds = 0, running_time_time_units = 0\<rparr>,
           \<lparr>octave = 4, default_length = 4, default_length_dot = 0, tempo = 120,
             volume = 63, articulation = 7 / 8, isActive = True,
             running_time_seconds = 1 / 2, running_time_time_units = 16000\<rparr>,
           \<lparr>octave = 4, default_length = 4, default_length_dot = 0, tempo = 120,
             volume = 63, articulation = 7 / 8, isActive = False,
             running_time_seconds = 1 / 2, running_time_time_units = 16000\<rparr>],
        frame_map = [[], [\<lparr>waveform = (0, 0), adsr_time_scale_1 = 64035, adsr_release_start = 27\<rparr>], [\<lparr>waveform = (0, 0), adsr_time_scale_1 = 499, adsr_release_start = 27\<rparr>]], errors = []\<rparr>)"
proof -
  have s1: "mml_step stale_env ''Cr4\<newline>Br4''
      (reset_active_state stale_env mml_init) =
    Next \<lparr>line = 1, pos = 1, content = Suc 0,
        mml_channel_states =
          [\<lparr>octave = 4, default_length = 4, default_length_dot = 0, tempo = 120,
             volume = 63, articulation = 7 / 8, isActive = False,
             running_time_seconds = 0, running_time_time_units = 0\<rparr>,
           \<lparr>octave = 4, default_length = 4, default_length_dot = 0, tempo = 120,
             volume = 63, articulation = 7 / 8, isActive = False,
             running_time_seconds = 0, running_time_time_units = 64000\<rparr>,
           \<lparr>octave = 4, default_length = 4, default_length_dot = 0, tempo = 120,
             volume = 63, articulation = 7 / 8, isActive = True,
             running_time_seconds = 0, running_time_time_units = 0\<rparr>],
        frame_map = [], errors = []\<rparr>"
    by (simp add: plat_defs scan_defs ideal_defs stale_env_sel Let_def numeral_2_eq_2)
  have s2: "mml_step stale_env ''Cr4\<newline>Br4''
      \<lparr>line = 1, pos = 1, content = Suc 0,
        mml_channel_states =
          [\<lparr>octave = 4, default_length = 4, default_length_dot = 0, tempo = 120,
             volume = 63, articulation = 7 / 8, isActive = False,
             running_time_seconds = 0, running_time_time_units = 0\<rparr>,
           \<lparr>octave = 4, default_length = 4, default_length_dot = 0, tempo = 120,
             volume = 63, articulation = 7 / 8, isActive = False,
             running_time_seconds = 0, running_time_time_units = 64000\<rparr>,
           \<lparr>octave = 4, default_length = 4, default_length_dot = 0, tempo = 120,
             volume = 63, articulation = 7 / 8, isActive = True,
             running_time_seconds = 0, running_time_time_units = 0\<rparr>],
        frame_map = [], errors = []\<rparr> =
    Next \<lparr>line = 1, pos = 3, content = Suc (Suc (Suc 0)),
        mml_channel_states =
          [\<lparr>octave = 4, default_length = 4, default_length_dot = 0, tempo = 120,
             volume = 63, articulation = 7 / 8, isActive = False,
             running_time_seconds = 0, running_time_time_units = 0\<rparr>,
           \<lparr>octave = 4, default_length = 4, default_length_dot = 0, tempo = 120,
             volume = 63, articulation = 7 / 8, isActive = False,
             running_time_seconds = 0, running_time_time_units = 64000\<rparr>,
           \<lparr>octave = 4, default_length = 4, default_length_dot = 0, tempo = 120,
             volume = 63, articulation = 7 / 8, isActive = True,
             running_time_seconds = 1 / 2, running_time_time_units = 16000\<rparr>],
        frame_map = [[], [], [\<lparr>waveform = (0, 0), adsr_time_scale_1 = 499, adsr_release_start = 27\<rparr>]], errors = []\<rparr>"
    by (simp add: plat_defs scan_defs ideal_defs stale_env_sel Let_def of_rat_divide)
  have s3: "mml_step stale_env ''Cr4\<newline>Br4''
      \<lparr>line = 1, pos = 3, content = Suc (Suc (Suc 0)),
        mml_channel_states =
          [\<lparr>octave = 4, default_length = 4, default_length_dot = 0, tempo = 120,
             volume = 63, articulation = 7 / 8, isActive = False,
             running_time_seconds = 0, running_time_time_units = 0\<rparr>,
           \<lparr>octave = 4, default_length = 4, default_length_dot = 0, tempo = 120,
             volume = 63, articulation = 7 / 8, isActive = False,
             running_time_seconds = 0, running_time_time_units = 64000\<rparr>,
           \<lparr>octave = 4, default_length = 4, default_length_dot = 0, tempo = 120,
             volume = 63, articulation = 7 / 8, isActive = True,
             running_time_seconds = 1 / 2, running_time_time_units = 16000\<rparr>],
        frame_map = [[], [], [\<lparr>waveform = (0, 0), adsr_time_scale_1 = 499, adsr_release_start = 27\<rparr>]], errors = []\<rparr> =
    Next \<lparr>line = 2, pos = 0, content = Suc (Suc (Suc (Suc 0))),
        mml_channel_states =
          [\<lparr>octave = 4, default_length = 4, default_length_dot = 0, tempo = 120,
             volume = 63, articulation = 7 / 8, isActive = True,
             running_time_seconds = 0, running_time_time_units = 0\<rparr>,
           \<lparr>octave = 4, default_length = 4, default_length_dot = 0, tempo = 120,
             volume = 63, articulation = 7 / 8, isActive = False,
             running_time_seconds = 0, running_time_time_units = 64000\<rparr>,
           \<lparr>octave = 4, default_length = 4, default_length_dot = 0, tempo = 120,
             volume = 63, articulation = 7 / 8, isActive = False,
             running_time_seconds = 1 / 2, running_time_time_units = 16000\<rparr>],
        frame_map = [[], [], [\<lparr>waveform = (0, 0), adsr_time_scale_1 = 499, adsr_release_start = 27\<rparr>]], errors = []\<rparr>"
    by (simp add: plat_defs scan_defs ideal_defs stale_env_sel Let_def of_rat_divide)
  have s4: "mml_step stale_env ''Cr4\<newline>Br4''
      \<lparr>line = 2, pos = 0, content = Suc (Suc (Suc (Suc 0))),
        mml_channel_states =
          [\<lparr>octave = 4, default_length = 4, default_length_dot = 0, tempo = 120,
             volume = 63, articulation = 7 / 8, isActive = True,
             running_time_seconds = 0, running_time_time_units = 0\<rparr>,
           \<lparr>octave = 4, default_length = 4, default_length_dot = 0, tempo = 120,
             volume = 63, articulation = 7 / 8, isActive = False,
             running_time_seconds = 0, running_time_time_units = 64000\<rparr>,
           \<lparr>octave = 4, default_length = 4, default_length_dot = 0, tempo = 120,
             volume = 63, articulation = 7 / 8, isActive = False,
             running_time_seconds = 1 / 2, running_time_time_units = 16000\<rparr>],
        frame_map = [[], [], [\<lparr>waveform = (0, 0), adsr_time_scale_1 = 499, adsr_release_start = 27\<rparr>]], errors = []\<rparr> =
    Next \<lparr>line = 2, pos = 1, content = Suc (Suc (Suc (Suc (Suc 0)))),
        mml_channel_states =
          [\<lparr>octave = 4, default_length = 4, default_length_dot = 0, tempo = 120,
             volume = 63, articulation = 7 / 8, isActive = False,
             running_time_seconds = 0, running_time_time_units = 0\<rparr>,
           \<lparr>octave = 4, default_length = 4, default_length_dot = 0, tempo = 120,
             volume = 63, articulation = 7 / 8, isActive = True,
             running_time_seconds = 0, running_time_time_units = 64000\<rparr>,
           \<lparr>octave = 4, default_length = 4, default_length_dot = 0, tempo = 120,
             volume = 63, articulation = 7 / 8, isActive = False,
             running_time_seconds = 1 / 2, running_time_time_units = 16000\<rparr>],
        frame_map = [[], [], [\<lparr>waveform = (0, 0), adsr_time_scale_1 = 499, adsr_release_start = 27\<rparr>]], errors = []\<rparr>"
    by (simp add: plat_defs scan_defs ideal_defs stale_env_sel Let_def of_rat_divide)
  have s5: "mml_step stale_env ''Cr4\<newline>Br4''
      \<lparr>line = 2, pos = 1, content = Suc (Suc (Suc (Suc (Suc 0)))),
        mml_channel_states =
          [\<lparr>octave = 4, default_length = 4, default_length_dot = 0, tempo = 120,
             volume = 63, articulation = 7 / 8, isActive = False,
             running_time_seconds = 0, running_time_time_units = 0\<rparr>,
           \<lparr>octave = 4, default_length = 4, default_length_dot = 0, tempo = 120,
             volume = 63, articulation = 7 / 8, isActive = True,
             running_time_seconds = 0, running_time_time_units = 64000\<rparr>,
           \<lparr>octave = 4, default_length = 4, default_length_dot = 0, tempo = 120,
             volume = 63, articulation = 7 / 8, isActive = False,
             running_time_seconds = 1 / 2, running_time_time_units = 16000\<rparr>],
        frame_map = [[], [], [\<lparr>waveform = (0, 0), adsr_time_scale_1 = 499, adsr_release_start = 27\<rparr>]], errors = []\<rparr> =
    Next \<lparr>line = 2, pos = 3, content = Suc (Suc (Suc (Suc (Suc (Suc (Suc 0)))))),
        mml_channel_states =
          [\<lparr>octave = 4, default_length = 4, default_length_dot = 0, tempo = 120,
             volume = 63, articulation = 7 / 8, isActive = False,
             running_time_seconds = 0, running_time_time_units = 0\<rparr>,
           \<lparr>octave = 4, default_length = 4, default_length_dot = 0, tempo = 120,
             volume = 63, articulation = 7 / 8, isActive = True,
             running_time_seconds = 1 / 2, running_time_time_units = 16000\<rparr>,
           \<lparr>octave = 4, default_length = 4, default_length_dot = 0, tempo = 120,
             volume = 63, articulation = 7 / 8, isActive = False,
             running_time_seconds = 1 / 2, running_time_time_units = 16000\<rparr>],
        frame_map = [[], [\<lparr>waveform = (0, 0), adsr_time_scale_1 = 64035, adsr_release_start = 27\<rparr>], [\<lparr>waveform = (0, 0), adsr_time_scale_1 = 499, adsr_release_start = 27\<rparr>]], errors = []\<rparr>"
    by (simp add: plat_defs scan_defs ideal_defs stale_env_sel Let_def of_rat_divide)
  have s6: "mml_step stale_env ''Cr4\<newline>Br4''
      \<lparr>line = 2, pos = 3, content = Suc (Suc (Suc (Suc (Suc (Suc (Suc 0)))))),
        mml_channel_states =
          [\<lparr>octave = 4, default_length = 4, default_length_dot = 0, tempo = 120,
             volume = 63, articulation = 7 / 8, isActive = False,
             running_time_seconds = 0, running_time_time_units = 0\<rparr>,
           \<lparr>octave = 4, default_length = 4, default_length_dot = 0, tempo = 120,
             volume = 63, articulation = 7 / 8, isActive = True,
             running_time_seconds = 1 / 2, running_time_time_units = 16000\<rparr>,
           \<lparr>octave = 4, default_length = 4, default_length_dot = 0, tempo = 120,
             volume = 63, articulation = 7 / 8, isActive = False,
             running_time_seconds = 1 / 2, running_time_time_units = 16000\<rparr>],
        frame_map = [[], [\<lparr>waveform = (0, 0), adsr_time_scale_1 = 64035, adsr_release_start = 27\<rparr>], [\<lparr>waveform = (0, 0), adsr_time_scale_1 = 499, adsr_release_start = 27\<rparr>]], errors = []\<rparr> =
    Stop No_Return \<lparr>line = 2, pos = 4, content = Suc (Suc (Suc (Suc (Suc (Suc (Suc (Suc 0))))))),
        mml_channel_states =
          [\<lparr>octave = 4, default_length = 4, default_length_dot = 0, tempo = 120,
             volume = 63, articulation = 7 / 8, isActive = False,
             running_time_seconds = 0, running_time_time_units = 0\<rparr>,
           \<lparr>octave = 4, default_length = 4, default_length_dot = 0, tempo = 120,
             volume = 63, articulation = 7 / 8, isActive = True,
             running_time_seconds = 1 / 2, running_time_time_units = 16000\<rparr>,
           \<lparr>octave = 4, default_length = 4, default_length_dot = 0, tempo = 120,
             volume = 63, articulation = 7 / 8, isActive = False,
             running_time_seconds = 1 / 2, running_time_time_units = 16000\<rparr>],
        frame_map = [[], [\<lparr>waveform = (0, 0), adsr_time_scale_1 = 64035, adsr_release_start = 27\<rparr>], [\<lparr>waveform = (0, 0), adsr_time_scale_1 = 499, adsr_release_start = 27\<rparr>]], errors = []\<rparr>"
    by (simp add: plat_defs scan_defs ideal_defs stale_env_sel Let_def of_rat_divide)
  show ?thesis
    unfolding mml_parse_def
    by (simp only: mml_loop_Next [OF s1] mml_loop_Next [OF s2] mml_loop_Next [OF s3] mml_loop_Next [OF s4] mml_loop_Next [OF s5] mml_loop_Stop [OF s6])
qed

text \<open>
  Claim C2 does not hold of the code: the bound fails on a channel that is skipped. On the line
  "Cr4" the selector creates the channels B and C and initialises C only. After the rest is
  processed, the state of channel B is what the memory held: its accumulator is not within
  \<^verbatim>\<open>ADSR_TIME_UNITS\<close> of \<^verbatim>\<open>(int)round(running_time.seconds * synth_freq)\<close>. When a second line
  "Br4" plays a rest on channel B, the compile ends without an error; the quantizer, run on
  that state, returns the count -1500, which is handed to the frame emitter and stored as
  the only frame of the channel, and the accumulator of the channel ends at 16000, which
  is not \<^verbatim>\<open>ADSR_TIME_UNITS\<close> times the count handed over.
\<close>

theorem gap_channel_breaks_drift_bound:
  "mml_channel_states (snd (mml_parse stale_env ''Cr4'')) ! 1 = junk_state stale_env 1 \<and>
   \<not> drift_bounded stale_env (mml_channel_states (snd (mml_parse stale_env ''Cr4'')) ! 1) \<and>
   fst (mml_parse stale_env ''Cr4\<newline>Br4'') = No_Return \<and>
   errors (snd (mml_parse stale_env ''Cr4\<newline>Br4'')) = [] \<and>
   get_adsr_time_scale stale_env ((junk_state stale_env 1)\<lparr>isActive := True\<rparr>) 4 0 =
     Inr (- 1500,
          mml_channel_states (snd (mml_parse stale_env ''Cr4\<newline>Br4'')) ! 1) \<and>
   frame_map (snd (mml_parse stale_env ''Cr4\<newline>Br4'')) ! 1 =
     [\<lparr>waveform = (0, 0), adsr_time_scale_1 = word_of_int (- 1500 - 1),
       adsr_release_start = 27\<rparr>] \<and>
   running_time_time_units
     (mml_channel_states (snd (mml_parse stale_env ''Cr4\<newline>Br4'')) ! 1) =
     16000 \<and>
   (16000 :: int) \<noteq> - 1500 * ADSR_TIME_UNITS stale_env"
proof (intro conjI)
  show "\<not> drift_bounded stale_env (mml_channel_states (snd (mml_parse stale_env ''Cr4'')) ! 1)"
    unfolding gap_run_one_line
    by (simp add: drift_bounded_def ideal_defs stale_env_sel)
  show "get_adsr_time_scale stale_env ((junk_state stale_env 1)\<lparr>isActive := True\<rparr>) 4 0 =
     Inr (- 1500,
          mml_channel_states (snd (mml_parse stale_env ''Cr4\<newline>Br4'')) ! 1)"
    unfolding gap_run_two_lines
    by (simp add: ideal_defs stale_env_sel INT_MIN_def INT_MAX_def Let_def)
qed (simp_all add: gap_run_one_line gap_run_two_lines stale_env_sel)

subsection \<open>Note code 0\<close>

text \<open>
  Claim C3 does not hold of the code. The loop that sets the note turns an explicit note
  code 0 into a rest (line 448), but \<^verbatim>\<open>read_number\<close> returns -1 for the number 0, so the
  input "n0" is rejected before: "Invalid note code" is reported, \<^verbatim>\<open>mml_parse\<close> returns 1
  and no frame is emitted.
\<close>

theorem n0_is_rejected:
  "fst (mml_parse E ''n0'') = Return_1 \<and>
   errors (snd (mml_parse E ''n0'')) = [(''Invalid note code'', 1, 1)] \<and>
   frame_map (snd (mml_parse E ''n0'')) = []"
  by (intro conjI; simp add: mml_loop.simps plat_defs scan_defs Let_def)

subsection \<open>Numbers in the text\<close>






subsection \<open>Tempo\<close>




subsection \<open>Volume\<close>




subsection \<open>The flat marker\<close>

text \<open>
  Claim C6, as the code has it. In the modifier loop of a letter note, the flat marker
  \<^verbatim>\<open>-\<close> first moves the letter to the previous one and then tests the new letter: when it
  is e or b, which take no sharp, "Invalid sharp" is reported and \<^verbatim>\<open>mml_parse\<close> returns 1.
  So it is lowering f or c that is the error; lowering a, b, d, e or g is accepted: the
  note becomes the previous letter with a sharp.
\<close>

theorem flat_marker_shifts_letter:
  assumes "\<not> isPause n" and "\<not> isNoteCode n"
    and "cval CHR ''a'' \<le> code n" and "code n \<le> cval CHR ''g''"
    and "content st < length buf" and "buf ! content st = CHR ''-''"
  shows "note_modifier buf n st =
           (if code n = cval CHR ''f'' \<or> code n = cval CHR ''c''
            then M_Return (error_handler ''Invalid sharp'' st)
            else M_Continue (n\<lparr>code := code n - 1, sharp := True\<rparr>)
                   (st\<lparr>content := content st + 1, pos := pos st + 1\<rparr>))"
proof -
  have pk: "peek buf (content st) = 45"
    using assms(5,6) by (simp add: peek_def cval_def)
  have c: "97 \<le> code n" "code n \<le> 103"
    using assms(3,4) by (simp_all add: cval_def)
  then have tc: "to_char (code n - 1) = code n - 1"
    by (simp add: to_char_def)
  show ?thesis
    using assms(1,2) c by (auto simp: note_modifier_def Let_def pk tc cval_def)
qed

theorem flat_marker_shifts_letter_witness:
  "note_modifier ''e-''
     \<lparr>code = 101, isPause = False, isNoteCode = False, length_note = - 1, dot = 0,
      sharp = False, customLength = False, noteCode = - 1\<rparr>
     (mml_init\<lparr>pos := 1, content := 1\<rparr> :: (real, int \<times> int) mml_state) =
   M_Continue
     \<lparr>code = 100, isPause = False, isNoteCode = False, length_note = - 1, dot = 0,
      sharp = True, customLength = False, noteCode = - 1\<rparr>
     (mml_init\<lparr>pos := 2, content := 2\<rparr>) \<and>
   note_modifier ''f-''
     \<lparr>code = 102, isPause = False, isNoteCode = False, length_note = - 1, dot = 0,
      sharp = False, customLength = False, noteCode = - 1\<rparr>
     (mml_init\<lparr>pos := 1, content := 1\<rparr> :: (real, int \<times> int) mml_state) =
   M_Return (error_handler ''Invalid sharp'' (mml_init\<lparr>pos := 1, content := 1\<rparr>))"
  using flat_marker_shifts_letter
          [of "\<lparr>code = 101, isPause = False, isNoteCode = False, length_note = - 1, dot = 0,
                sharp = False, customLength = False, noteCode = - 1\<rparr>"
              "mml_init\<lparr>pos := 1, content := 1\<rparr> :: (real, int \<times> int) mml_state" "''e-''"]
        flat_marker_shifts_letter
          [of "\<lparr>code = 102, isPause = False, isNoteCode = False, length_note = - 1, dot = 0,
                sharp = False, customLength = False, noteCode = - 1\<rparr>"
              "mml_init\<lparr>pos := 1, content := 1\<rparr> :: (real, int \<times> int) mml_state" "''f-''"]
  by (simp add: mml_init_def cval_def)

text \<open>
  The claim as stated fails: "e-" compiles without error to one frame (d sharp), and "f-"
  and "c-" are rejected.
\<close>

theorem flat_marker_counterexample:
  "fst (mml_parse ideal_env ''e-'') = No_Return \<and>
   errors (snd (mml_parse ideal_env ''e-'')) = [] \<and>
   map (map waveform) (frame_map (snd (mml_parse ideal_env ''e-''))) = [[(1244, 63)]] \<and>
   fst (mml_parse ideal_env ''f-'') = Return_1 \<and>
   errors (snd (mml_parse ideal_env ''f-'')) = [(''Invalid sharp'', 1, 1)] \<and>
   fst (mml_parse ideal_env ''c-'') = Return_1 \<and>
   errors (snd (mml_parse ideal_env ''c-'')) = [(''Invalid sharp'', 1, 1)]"
  using f_flat_run by (simp add: e_flat_run)

subsection \<open>Misplaced channel selector\<close>

text \<open>
  Claim C7. An uppercase letter read at a column other than 1 is reported as "Misplaced
  channel selector", and the compile fails at that letter: the iteration that reads it ends
  \<^verbatim>\<open>mml_parse\<close> with the return value 1, the report is the first one the iteration makes,
  and the table of channels and the frame map are left as they were. Nothing after the
  letter is parsed.
\<close>

theorem misplaced_selector_aborts:
  assumes "content st < length buf" and "isupper (buf ! content st)" and "pos st \<noteq> 0"
  shows "\<exists>st'. mml_step E buf st = Stop Return_1 st' \<and>
           take (Suc (length (errors st))) (errors st') =
             errors st @ [(''Misplaced channel selector'', line st, pos st + 1)] \<and>
           mml_channel_states st' = mml_channel_states st \<and> frame_map st' = frame_map st"
proof -
  let ?c = "cval (buf ! content st)"
  have c: "65 \<le> ?c" "?c \<le> 90"
    using assms(2) by (simp_all add: isupper_def cval_def)
  have pk: "peek buf (content st) = ?c"
    using assms(1) by (simp add: peek_def)
  have "mml_step E buf st =
           Stop Return_1
             (st\<lparr>pos := pos st + 1, content := content st + 1,
                 errors := errors st @ [(''Misplaced channel selector'', line st, pos st + 1),
                                        (''Unknown command'', line st, pos st + 1)]\<rparr>)"
    using c assms(1,3)
    by (simp add: mml_step_def Let_def pk error_handler_def cval_def)
  then show ?thesis
    by simp
qed

theorem misplaced_selector_aborts_witness:
  "\<exists>st'. mml_step ideal_env '' A'' (mml_init\<lparr>pos := 1, content := 1\<rparr>) = Stop Return_1 st' \<and>
     take (Suc 0) (errors st') = [(''Misplaced channel selector'', 1, 2)] \<and>
     mml_channel_states st' = [] \<and> frame_map st' = []"
  using misplaced_selector_aborts [of "mml_init\<lparr>pos := 1, content := 1\<rparr>" "'' A''" ideal_env]
  by (simp add: mml_init_def isupper_def cval_def)

text \<open>
  The claim as stated fails: on the input " Ac" the compile returns failure at the
  letter A, and the note c after it is never parsed (no frame exists).
\<close>

theorem misplaced_selector_counterexample:
  "fst (mml_parse ideal_env '' Ac'') = Return_1 \<and>
   frame_map (snd (mml_parse ideal_env '' Ac'')) = [] \<and>
   errors (snd (mml_parse ideal_env '' Ac'')) =
     [(''Misplaced channel selector'', 1, 2), (''Unknown command'', 1, 2)]"
  by (intro conjI; simp add: mml_loop.simps plat_defs scan_defs Let_def)

subsection \<open>Octave\<close>

lemma octave_step_up_ok:
  "fst (octave_step_up cs) \<longleftrightarrow> \<not> (\<exists>c\<in>set cs. isActive c \<and> octave c = 9)"
  by (induction cs) (auto split: prod.splits)

lemma octave_step_up_map:
  "fst (octave_step_up cs) \<Longrightarrow>
   snd (octave_step_up cs) = map (\<lambda>c. if isActive c then c\<lparr>octave := octave c + 1\<rparr> else c) cs"
  by (induction cs) (auto split: prod.splits if_splits)

lemma mml_up_cases:
  "mml_up st =
     (if \<exists>c\<in>set (mml_channel_states st). isActive c \<and> octave c = 9
      then Stop Return_1
             (error_handler ''Invalid octave step up''
                (st\<lparr>mml_channel_states := snd (octave_step_up (mml_channel_states st))\<rparr>))
      else Next (for_active (\<lambda>c. c\<lparr>octave := octave c + 1\<rparr>) st))"
  using octave_step_up_ok [of "mml_channel_states st"]
        octave_step_up_map [of "mml_channel_states st"]
  by (auto simp: mml_up_def for_active_def split: prod.splits)

lemma octave_command:
  assumes "content st < length buf" and "buf ! content st = CHR ''o''"
  shows "mml_step E buf st =
           (if 48 \<le> peek buf (Suc (content st)) \<and> peek buf (Suc (content st)) \<le> 54
            then Next (for_active (\<lambda>c. c\<lparr>octave := peek buf (Suc (content st)) - 48\<rparr>)
                         (st\<lparr>pos := pos st + 2, content := content st + 2\<rparr>))
            else Stop Return_1
                   (error_handler ''Invalid octave''
                      (st\<lparr>pos := pos st + 2, content := content st + 2\<rparr>)))"
proof -
  let ?st = "st\<lparr>pos := pos st + 1, content := Suc (content st)\<rparr>"
  let ?st2 = "?st\<lparr>content := content ?st + 1, pos := pos ?st + 1\<rparr>"
  have pk: "peek buf (content st) = 111"
    using peek_at [OF assms(1,2)] by (simp add: cval_def)
  have st2: "?st2 = st\<lparr>pos := pos st + 2, content := content st + 2\<rparr>"
    by simp
  have "mml_step E buf st = mml_o buf ?st"
    using assms(1) by (simp add: mml_step_def Let_def pk cval_def)
  also have "\<dots> =
        (if 48 \<le> peek buf (Suc (content st)) \<and> peek buf (Suc (content st)) \<le> 54
         then Next (for_active (\<lambda>c. c\<lparr>octave := peek buf (Suc (content st)) - 48\<rparr>) ?st2)
         else Stop Return_1 (error_handler ''Invalid octave'' ?st2))"
    unfolding mml_o_def read_digit_def Let_def
    by (auto simp: cval_def [of "CHR ''0''"] cval_def [of "CHR ''9''"])
  finally show ?thesis
    unfolding st2 .
qed

lemma step_up_command:
  assumes "content st < length buf" and "buf ! content st = CHR ''>''"
  shows "mml_step E buf st = mml_up (st\<lparr>pos := pos st + 1, content := content st + 1\<rparr>)"
proof -
  have pk: "peek buf (content st) = 62"
    using peek_at [OF assms(1,2)] by (simp add: cval_def)
  show ?thesis
    using assms(1) by (simp add: mml_step_def Let_def pk cval_def)
qed

text \<open>
  Claim C8. The command \<^verbatim>\<open>o\<close> sets the octave of the active channels when the next
  character is a digit from 0 to 6, and reports "Invalid octave" and returns 1 for any
  other character, the digits 7, 8 and 9 included. The command \<^verbatim>\<open>>\<close> adds 1 to the octave
  of the active channels and reports "Invalid octave step up" only when an active channel
  is at octave 9. So from the initial octave 4 the inputs ">>>", ">>>>" and ">>>>>" reach
  the octaves 7, 8 and 9, which \<^verbatim>\<open>o\<close> never sets, and a sixth step is the error.
\<close>

theorem octave_reaches_9_by_steps_only:
  "(content st < length buf \<and> buf ! content st = CHR ''o'' \<longrightarrow>
      mml_step E buf st =
        (if 48 \<le> peek buf (Suc (content st)) \<and> peek buf (Suc (content st)) \<le> 54
         then Next (for_active (\<lambda>c. c\<lparr>octave := peek buf (Suc (content st)) - 48\<rparr>)
                      (st\<lparr>pos := pos st + 2, content := content st + 2\<rparr>))
         else Stop Return_1
                (error_handler ''Invalid octave''
                   (st\<lparr>pos := pos st + 2, content := content st + 2\<rparr>)))) \<and>
   (content st < length buf \<and> buf ! content st = CHR ''>'' \<longrightarrow>
      (if \<exists>c\<in>set (mml_channel_states st). isActive c \<and> octave c = 9
       then \<exists>st'. mml_step E buf st = Stop Return_1 st' \<and>
                  errors st' = errors st @ [(''Invalid octave step up'', line st, pos st + 1)]
       else mml_step E buf st =
              Next (for_active (\<lambda>c. c\<lparr>octave := octave c + 1\<rparr>)
                      (st\<lparr>pos := pos st + 1, content := content st + 1\<rparr>)))) \<and>
   map octave (mml_channel_states (snd (mml_parse E ''>>>''))) = [7] \<and>
   map octave (mml_channel_states (snd (mml_parse E ''>>>>''))) = [8] \<and>
   map octave (mml_channel_states (snd (mml_parse E ''>>>>>''))) = [9] \<and>
   fst (mml_parse E ''>>>>>'') = No_Return \<and>
   errors (snd (mml_parse E ''>>>>>'')) = [] \<and>
   fst (mml_parse E ''>>>>>>'') = Return_1 \<and>
   errors (snd (mml_parse E ''>>>>>>'')) = [(''Invalid octave step up'', 1, 6)]"
proof (intro conjI impI)
  assume "content st < length buf \<and> buf ! content st = CHR ''o''"
  then show "mml_step E buf st =
        (if 48 \<le> peek buf (Suc (content st)) \<and> peek buf (Suc (content st)) \<le> 54
         then Next (for_active (\<lambda>c. c\<lparr>octave := peek buf (Suc (content st)) - 48\<rparr>)
                      (st\<lparr>pos := pos st + 2, content := content st + 2\<rparr>))
         else Stop Return_1
                (error_handler ''Invalid octave''
                   (st\<lparr>pos := pos st + 2, content := content st + 2\<rparr>)))"
    by (simp add: octave_command)
next
  assume "content st < length buf \<and> buf ! content st = CHR ''>''"
  then have "mml_step E buf st = mml_up (st\<lparr>pos := pos st + 1, content := content st + 1\<rparr>)"
    by (simp add: step_up_command)
  then show "if \<exists>c\<in>set (mml_channel_states st). isActive c \<and> octave c = 9
       then \<exists>st'. mml_step E buf st = Stop Return_1 st' \<and>
                  errors st' = errors st @ [(''Invalid octave step up'', line st, pos st + 1)]
       else mml_step E buf st =
              Next (for_active (\<lambda>c. c\<lparr>octave := octave c + 1\<rparr>)
                      (st\<lparr>pos := pos st + 1, content := content st + 1\<rparr>))"
    by (simp add: mml_up_cases error_handler_def)
qed (simp_all add: mml_loop.simps plat_defs scan_defs Let_def)

theorem octave_reaches_9_by_steps_only_witness:
  "mml_step ideal_env ''o7'' (reset_active_state ideal_env mml_init) =
     Stop Return_1
       (error_handler ''Invalid octave''
          ((reset_active_state ideal_env mml_init)\<lparr>pos := 2, content := 2\<rparr>)) \<and>
   mml_step ideal_env ''o6'' (reset_active_state ideal_env mml_init) =
     Next (for_active (\<lambda>c. c\<lparr>octave := 6\<rparr>)
             ((reset_active_state ideal_env mml_init)\<lparr>pos := 2, content := 2\<rparr>)) \<and>
   mml_step ideal_env ''>'' (reset_active_state ideal_env mml_init) =
     Next (for_active (\<lambda>c. c\<lparr>octave := octave c + 1\<rparr>)
             ((reset_active_state ideal_env mml_init)\<lparr>pos := 1, content := 1\<rparr>)) \<and>
   map octave (mml_channel_states (snd (mml_parse ideal_env ''>>>>>''))) = [9]"
  using octave_reaches_9_by_steps_only
          [of "reset_active_state ideal_env mml_init" "''o7''" ideal_env]
        octave_reaches_9_by_steps_only
          [of "reset_active_state ideal_env mml_init" "''o6''" ideal_env]
        octave_reaches_9_by_steps_only
          [of "reset_active_state ideal_env mml_init" "''>''" ideal_env]
  by (simp add: mml_init_def peek_def cval_def new_channel_state_def
      reset_active_state_def enable_channel_def Let_def eval_nat_numeral)

subsection \<open>The duration of a frame\<close>

lemma uint_time_scale_1:
  "1 \<le> ts \<Longrightarrow> ts \<le> 65535 \<Longrightarrow> uint (word_of_int (ts - 1) :: 16 word) = ts - 1"
  by (subst uint_word_of_int_eq, rule take_bit_int_eq_self) simp_all

text \<open>
  Claim C9, as the code has it. When the frame emitter appends a frame and the waveform
  builder has accepted the request, a duration above 65535 (\<^verbatim>\<open>UINT16_MAX\<close>) is the error
  "Can't pack frame: adsr time_scale" and the emitter returns 0 (so \<^verbatim>\<open>mml_parse\<close>
  returns 1); a duration from 1 to 65535 is accepted and stored as value - 1 in the
  16-bit field, from which it is read back unchanged. (A whole note at tempo 1 is such
  an overlong duration: the input "o2t1l1a" fails to compile.)
\<close>

theorem frame_duration_up_to_65535:
  assumes "(if frequency = 0 then voice_wf_setup_def E 0 0
            else voice_wf_setup_def E frequency vol) = Some w"
    and "fm = grow_frame_map channel (frame_map st)"
    and "fr = (junk_frame E channel (length (fm ! channel)))\<lparr>waveform := w\<rparr>"
  shows "(65535 < time_scale \<longrightarrow>
            add_channel_frame E channel frequency time_scale vol artic False st =
              Inr (False,
                   error_handler ''Can't pack frame: adsr time_scale''
                     (st\<lparr>frame_map := fm[channel := fm ! channel @ [fr]]\<rparr>))) \<and>
         (1 \<le> time_scale \<and> time_scale \<le> 65535 \<and>
          dbl_to_uint8 (dbl E) (d_round (dbl E)
             (d_mul (dbl E) (d_of_int (dbl E) (ADSR_TIME_UNITS E)) artic)) = Inr r \<longrightarrow>
            add_channel_frame E channel frequency time_scale vol artic False st =
              Inr (True,
                   st\<lparr>frame_map := fm[channel := fm ! channel @
                        [fr\<lparr>adsr_time_scale_1 := word_of_int (time_scale - 1),
                            adsr_release_start := word_of_int (r - 1)\<rparr>]]\<rparr>) \<and>
            uint (word_of_int (time_scale - 1) :: 16 word) = time_scale - 1)"
proof (intro conjI impI)
  assume "65535 < time_scale"
  then show "add_channel_frame E channel frequency time_scale vol artic False st =
              Inr (False,
                   error_handler ''Can't pack frame: adsr time_scale''
                     (st\<lparr>frame_map := fm[channel := fm ! channel @ [fr]]\<rparr>))"
    using assms by (simp add: add_channel_frame_def Let_def UINT16_MAX_def)
next
  assume a: "1 \<le> time_scale \<and> time_scale \<le> 65535 \<and>
          dbl_to_uint8 (dbl E) (d_round (dbl E)
             (d_mul (dbl E) (d_of_int (dbl E) (ADSR_TIME_UNITS E)) artic)) = Inr r"
  then show "add_channel_frame E channel frequency time_scale vol artic False st =
              Inr (True,
                   st\<lparr>frame_map := fm[channel := fm ! channel @
                        [fr\<lparr>adsr_time_scale_1 := word_of_int (time_scale - 1),
                            adsr_release_start := word_of_int (r - 1)\<rparr>]]\<rparr>)"
    using assms
    by (simp add: add_channel_frame_def Let_def UINT16_MAX_def c_int_def INT_MIN_def INT_MAX_def)
  from a show "uint (word_of_int (time_scale - 1) :: 16 word) = time_scale - 1"
    by (simp only: uint_time_scale_1)
qed

theorem frame_duration_up_to_65535_witness:
  "add_channel_frame ideal_env 0 440 65535 63 (7 / 8) False mml_init =
     Inr (True,
          mml_init\<lparr>frame_map := [[\<lparr>waveform = (440, 63), adsr_time_scale_1 = 65534,
                                     adsr_release_start = 27\<rparr>]]\<rparr>) \<and>
   uint (word_of_int (65535 - 1) :: 16 word) = 65535 - 1 \<and>
   fst (mml_parse ideal_env ''o2t1l1a'') = Return_1 \<and>
   errors (snd (mml_parse ideal_env ''o2t1l1a'')) =
     [(''Can't pack frame: adsr time_scale'', 1, 7)]"
  using frame_duration_up_to_65535
          [of 440 ideal_env 63 "(440, 63)" "[[]]" 0 mml_init
              "\<lparr>waveform = (440, 63), adsr_time_scale_1 = 0, adsr_release_start = 0\<rparr>"
              65535 "7 / 8" 28]
        long_note_run
  by (simp add: ideal_env_def ideal_dbl_def mml_init_def grow_frame_map_def dbl_to_uint8_def
      c_round_def c_trunc_def)

text \<open>The claim as stated fails at the duration 65536, which is rejected.\<close>

theorem frame_duration_65536_counterexample:
  "add_channel_frame ideal_env 0 440 65536 63 (7 / 8) False mml_init =
     Inr (False,
          mml_init\<lparr>frame_map := [[\<lparr>waveform = (440, 63), adsr_time_scale_1 = 0,
                                     adsr_release_start = 0\<rparr>]],
                   errors := [(''Can't pack frame: adsr time_scale'', 1, 0)]\<rparr>)"
  by (simp add: add_channel_frame_def Let_def ideal_env_def ideal_dbl_def mml_init_def
      grow_frame_map_def UINT16_MAX_def error_handler_def)

subsection \<open>A comment on the last line\<close>

lemma comment_step:
  assumes "content st < length buf"
    and "buf ! content st = CHR ''#'' \<or> buf ! content st = CHR '';''"
    and "CHR 0x0A \<notin> set (drop (Suc (content st)) buf)"
  shows "mml_step E buf st =
           Stop (Undefined OutOfBounds) (st\<lparr>pos := pos st + 1, content := content st + 1\<rparr>)"
proof -
  have pk: "peek buf (content st) = 35 \<or> peek buf (content st) = 59"
    using assms(1,2) by (auto simp: peek_def cval_def)
  have sk: "skip_comment (drop (Suc (content st)) buf) = None"
    using assms(3) by (rule skip_comment_None)
  from pk show ?thesis
    using assms(1) by (elim disjE; simp add: mml_step_def Let_def cval_def sk)
qed

text \<open>
  Claim C10 does not hold of the code. When the scanner reads a comment marker and no
  newline follows in the buffer, the comment loop reads the terminator, finds it is not
  a newline, and goes on reading past the end of the buffer.
\<close>

theorem unterminated_comment_overruns:
  assumes "content st < length buf"
    and "buf ! content st = CHR ''#'' \<or> buf ! content st = CHR '';''"
    and "CHR 0x0A \<notin> set (drop (Suc (content st)) buf)"
  shows "fst (mml_loop E buf st) = Undefined OutOfBounds"
  by (simp add: mml_loop.simps [of E buf st] comment_step [OF assms])

theorem unterminated_comment_overruns_witness:
  "content (reset_active_state ideal_env mml_init) < length ''# fine'' \<and>
   ''# fine'' ! content (reset_active_state ideal_env mml_init) = CHR ''#'' \<and>
   CHR 0x0A \<notin> set (drop (Suc (content (reset_active_state ideal_env mml_init))) ''# fine'') \<and>
   fst (mml_parse ideal_env ''# fine'') = Undefined OutOfBounds"
  using unterminated_comment_overruns
          [of "reset_active_state ideal_env mml_init" "''# fine''" ideal_env]
  by (simp add: mml_parse_def mml_init_def)

end
